theory Spec2Isabelle
  imports Complex_Main "HOL-Library.Word"
begin

section \<open>Python values used by the audio pipeline\<close>

text \<open>
  The audio utilities of FinTalk (\<^verbatim>\<open>pages/audio_utils.py\<close>) work on Python
  \<^verbatim>\<open>bytes\<close> objects, on unbounded integers and on a few floats. Bytes are modelled
  as lists of 8-bit words, integers as \<open>int\<close> or \<open>nat\<close>, and every exception the code can
  meet is a value of the datatype \<open>exn\<close>.
\<close>

type_synonym byte = "8 word"

datatype exn =
    OverflowError
  | ValueError
  | TypeError
  | ZeroDivisionError
  | FileNotFoundError
  | WaveError
  | ImportError
  | KeyError
  | RequestException

text \<open>
  \<^verbatim>\<open>n.to_bytes(length, 'little')\<close>: the unsigned little-endian representation of
  \<open>n\<close> on \<open>length\<close> bytes. Python raises \<^verbatim>\<open>OverflowError\<close> for a negative \<open>n\<close> and
  for an \<open>n\<close> that does not fit.
\<close>

definition to_bytes :: "int \<Rightarrow> nat \<Rightarrow> exn + byte list" where
  "to_bytes n len =
     (if n < 0 \<or> 256 ^ len \<le> n then Inl OverflowError
      else Inr (map (\<lambda>i. word_of_int (n div 256 ^ i)) [0..<len]))"

text \<open>
  Reading an unsigned little-endian field back (\<^verbatim>\<open>int.from_bytes(bs, 'little')\<close>);
  used to state what a header field declares.
\<close>

fun from_bytes :: "byte list \<Rightarrow> int" where
  "from_bytes [] = 0"
| "from_bytes (b # bs) = uint b + 256 * from_bytes bs"

text \<open>The slice \<^verbatim>\<open>bs[i:j]\<close> for \<open>0 \<le> i \<le> j\<close>.\<close>

definition py_slice :: "'a list \<Rightarrow> nat \<Rightarrow> nat \<Rightarrow> 'a list" where
  "py_slice bs i j = take (j - i) (drop i bs)"

text \<open>The four-character tags of the RIFF container, as ASCII bytes.\<close>

definition RIFF :: "byte list" where "RIFF = [0x52, 0x49, 0x46, 0x46]"
definition WAVE :: "byte list" where "WAVE = [0x57, 0x41, 0x56, 0x45]"
definition fmt_tag :: "byte list" where "fmt_tag = [0x66, 0x6D, 0x74, 0x20]"
definition data_tag :: "byte list" where "data_tag = [0x64, 0x61, 0x74, 0x61]"

section \<open>The fallback WAV builder\<close>

text \<open>
  \<^verbatim>\<open>create_basic_wav\<close> wraps raw bytes in a 44-byte PCM header with fixed
  parameters. The header is built by thirteen \<^verbatim>\<open>extend\<close> calls on a bytearray; five
  of them call \<^verbatim>\<open>to_bytes\<close> on a value that depends on nothing but constants, two on
  a value that depends on the length of the payload. Any exception is caught and the
  function returns \<^verbatim>\<open>None\<close>.
\<close>

definition sample_rate :: int where "sample_rate = 44100"
definition num_channels :: int where "num_channels = 1"
definition bits_per_sample :: int where "bits_per_sample = 16"

definition bind_exn :: "exn + 'a \<Rightarrow> ('a \<Rightarrow> exn + 'b) \<Rightarrow> exn + 'b" where
  "bind_exn m f = (case m of Inl e \<Rightarrow> Inl e | Inr x \<Rightarrow> f x)"

text \<open>
  \<open>extend_bytes h m\<close> is \<^verbatim>\<open>wav_header.extend(m)\<close> where the argument \<open>m\<close> may have
  raised: the exception leaves the \<^verbatim>\<open>try\<close> block at once.
\<close>

definition extend_bytes :: "exn + byte list \<Rightarrow> exn + byte list \<Rightarrow> exn + byte list" where
  "extend_bytes h m = bind_exn h (\<lambda>hs. bind_exn m (\<lambda>ms. Inr (hs @ ms)))"

definition wav_header :: "int \<Rightarrow> exn + byte list" where
  "wav_header data_length =
     foldl extend_bytes (Inr [])
       [ Inr RIFF,
         to_bytes (36 + data_length) 4,
         Inr WAVE,
         Inr fmt_tag,
         to_bytes 16 4,
         to_bytes 1 2,
         to_bytes num_channels 2,
         to_bytes sample_rate 4,
         to_bytes (sample_rate * num_channels * bits_per_sample div 8) 4,
         to_bytes (num_channels * bits_per_sample div 8) 2,
         to_bytes bits_per_sample 2,
         Inr data_tag,
         to_bytes data_length 4 ]"

definition create_basic_wav :: "byte list \<Rightarrow> byte list option" where
  "create_basic_wav audio_data =
     (case wav_header (int (length audio_data)) of
        Inl e \<Rightarrow> None
      | Inr h \<Rightarrow> Some (h @ audio_data))"

section \<open>The format normaliser\<close>

text \<open>
  \<^verbatim>\<open>convert_webm_to_wav\<close> tries three strategies in turn: the optional
  \<^verbatim>\<open>soundfile\<close> library, a check for the RIFF/WAVE signature, and the fallback
  builder. The library is outside the repository; it is a parameter of the model:
  the module flag \<^verbatim>\<open>SOUNDFILE_AVAILABLE\<close> and the outcome of
  \<^verbatim>\<open>sf.read\<close> followed by \<^verbatim>\<open>sf.write(..., format='WAV')\<close> on given file contents.
  The scratch file \<^verbatim>\<open>temp_audio_input\<close> only carries \<^verbatim>\<open>audio_bytes\<close> to the
  library and is removed in the \<^verbatim>\<open>finally\<close> clause; the model hands the bytes over
  directly.
\<close>

record soundfile =
  SOUNDFILE_AVAILABLE :: bool
  sf_read_write :: "byte list \<Rightarrow> exn + byte list"

text \<open>Python's truth value of an \<^verbatim>\<open>Optional[bytes]\<close>: \<^verbatim>\<open>None\<close> and \<^verbatim>\<open>b''\<close> are false.\<close>

definition falsy :: "byte list option \<Rightarrow> bool" where
  "falsy x = (x = None \<or> x = Some [])"

definition try_soundfile_conversion :: "soundfile \<Rightarrow> byte list \<Rightarrow> byte list option" where
  "try_soundfile_conversion sf temp_file_bytes =
     (if \<not> SOUNDFILE_AVAILABLE sf then None
      else case sf_read_write sf temp_file_bytes of
             Inl e \<Rightarrow> None
           | Inr wav_data \<Rightarrow> Some wav_data)"

definition check_existing_wav_format :: "byte list \<Rightarrow> byte list option" where
  "check_existing_wav_format audio_bytes =
     (if py_slice audio_bytes 0 4 = RIFF \<and> py_slice audio_bytes 8 12 = WAVE
      then Some audio_bytes else None)"

definition create_basic_wav_fallback :: "byte list \<Rightarrow> byte list option" where
  "create_basic_wav_fallback audio_data =
     (if length audio_data \<le> 1000 then None else create_basic_wav audio_data)"

definition convert_webm_to_wav :: "soundfile \<Rightarrow> byte list \<Rightarrow> byte list option" where
  "convert_webm_to_wav sf audio_bytes =
     (if audio_bytes = [] then None
      else if length audio_bytes < 100 then None
      else
        let wav_data1 = try_soundfile_conversion sf audio_bytes;
            wav_data2 = (if falsy wav_data1 then check_existing_wav_format audio_bytes
                         else wav_data1);
            wav_data3 = (if falsy wav_data2 then create_basic_wav_fallback audio_bytes
                         else wav_data2)
        in if \<not> falsy wav_data3 then wav_data3 else None)"

section \<open>The silence detector\<close>

text \<open>
  \<^verbatim>\<open>np.frombuffer(audio_bytes, dtype=np.int16)\<close> raises \<^verbatim>\<open>ValueError\<close> when the
  buffer size is not a multiple of two; otherwise it reads signed 16-bit samples
  (little-endian on the machines the application runs on).
\<close>

fun int16_samples :: "byte list \<Rightarrow> int list" where
  "int16_samples (lo # hi # bs) =
     sint (word_of_int (uint lo + 256 * uint hi) :: 16 word) # int16_samples bs"
| "int16_samples bs = []"

definition np_frombuffer_int16 :: "byte list \<Rightarrow> exn + int list" where
  "np_frombuffer_int16 audio_bytes =
     (if odd (length audio_bytes) then Inl ValueError
      else Inr (int16_samples audio_bytes))"

text \<open>
  The loudness itself is computed by \<^verbatim>\<open>numpy\<close> in 32-bit floating point
  (\<^verbatim>\<open>np.sqrt(np.mean(normalized**2)) < threshold\<close>) or, on the other path, by
  \<^verbatim>\<open>soundfile\<close> and \<^verbatim>\<open>numpy\<close> on the decoded file. The control flow of the
  detector takes both computations as arguments: \<open>rms_below\<close> for the comparison on a
  sample array, \<open>sf_rms_below\<close> for the decoding path, which may raise. The type \<open>'t\<close>
  is the type of thresholds. The computation of the fallback path is \<open>np_rms_below\<close>,
  defined with the floats below; what \<^verbatim>\<open>soundfile\<close> decodes lies outside the
  repository.
\<close>

definition detect_silence_fallback ::
    "(int list \<Rightarrow> 't \<Rightarrow> bool) \<Rightarrow> byte list \<Rightarrow> 't \<Rightarrow> exn + bool" where
  "detect_silence_fallback rms_below audio_bytes threshold =
     (if length audio_bytes < 1000 then Inr True
      else case np_frombuffer_int16 audio_bytes of
             Inl e \<Rightarrow> Inl e
           | Inr audio_array \<Rightarrow>
               if length audio_array = 0 then Inr True
               else Inr (rms_below audio_array threshold))"

definition detect_silence_with_soundfile ::
    "(byte list \<Rightarrow> 't \<Rightarrow> exn + bool) \<Rightarrow> byte list \<Rightarrow> 't \<Rightarrow> exn + bool" where
  "detect_silence_with_soundfile sf_rms_below audio_bytes threshold =
     sf_rms_below audio_bytes threshold"

text \<open>The body of the \<^verbatim>\<open>try\<close> block of \<^verbatim>\<open>detect_silence\<close>, then the function.\<close>

definition detect_silence_try ::
    "bool \<Rightarrow> (byte list \<Rightarrow> 't \<Rightarrow> exn + bool) \<Rightarrow> (int list \<Rightarrow> 't \<Rightarrow> bool)
      \<Rightarrow> byte list \<Rightarrow> 't \<Rightarrow> exn + bool" where
  "detect_silence_try soundfile_available sf_rms_below rms_below audio_bytes threshold =
     (if soundfile_available
      then detect_silence_with_soundfile sf_rms_below audio_bytes threshold
      else detect_silence_fallback rms_below audio_bytes threshold)"

definition detect_silence ::
    "bool \<Rightarrow> (byte list \<Rightarrow> 't \<Rightarrow> exn + bool) \<Rightarrow> (int list \<Rightarrow> 't \<Rightarrow> bool)
      \<Rightarrow> byte list \<Rightarrow> 't \<Rightarrow> bool" where
  "detect_silence soundfile_available sf_rms_below rms_below audio_bytes threshold =
     (case detect_silence_try soundfile_available sf_rms_below rms_below audio_bytes threshold of
        Inl e \<Rightarrow> False
      | Inr silent \<Rightarrow> silent)"

section \<open>Python floats\<close>

text \<open>
  \<^verbatim>\<open>split_audio\<close> computes its chunk boundaries with Python floats, that is IEEE 754
  binary64 numbers, and truncates them to frame indices; the rounding decides which
  frame a chunk ends at, so it is written out. A finite float is the rational number it
  denotes. \<open>fl x\<close> is the binary64 number nearest to \<open>x\<close>, ties to the even
  significand: with \<open>2\<^sup>E \<le> \<bar>x\<bar> < 2\<^sup>E\<^sup>+\<^sup>1\<close> it is the multiple of \<open>2\<^sup>E\<^sup>-\<^sup>5\<^sup>2\<close>
  nearest to \<open>x\<close>. Exponents are not bounded: overflow and subnormal numbers lie far
  outside what frame counts and sample rates of a WAV header (32-bit fields) can reach.
\<close>

definition pow2 :: "int \<Rightarrow> rat" where
  "pow2 e = (if 0 \<le> e then 2 ^ nat e else 1 / 2 ^ nat (- e))"

function ilog2 :: "int \<Rightarrow> int" where
  "ilog2 n = (if n < 2 then 0 else 1 + ilog2 (n div 2))"
  by pat_completeness auto
termination
  by (relation "measure nat") auto

text \<open>
  \<open>expo x\<close> is \<open>\<lfloor>log\<^sub>2 x\<rfloor>\<close> for a positive rational \<open>x\<close>: the bit length of the integer
  part when \<open>x \<ge> 1\<close>, and \<open>- \<lceil>log\<^sub>2 (1 / x)\<rceil>\<close> below 1.
\<close>

definition expo :: "rat \<Rightarrow> int" where
  "expo x = (if 1 \<le> x then ilog2 \<lfloor>x\<rfloor> else - (1 + ilog2 (\<lceil>1 / x\<rceil> - 1)))"

definition round_half_even :: "rat \<Rightarrow> int" where
  "round_half_even x =
     (let f = \<lfloor>x\<rfloor>; r = x - of_int f
      in if r < 1 / 2 then f
         else if 1 / 2 < r then f + 1
         else if even f then f else f + 1)"

definition fl :: "rat \<Rightarrow> rat" where
  "fl x =
     (if x = 0 then 0
      else let e = expo \<bar>x\<bar> - 52
           in of_int (round_half_even (x / pow2 e)) * pow2 e)"

text \<open>
  The numbers of \<^verbatim>\<open>split_audio\<close> are Python ints and floats; \<^verbatim>\<open>min\<close> returns one of
  its arguments with its type, and the product of an int with an int stays an int.
\<close>

datatype pynum = PyInt int | PyFloat rat

definition py_value :: "pynum \<Rightarrow> rat" where
  "py_value x = (case x of PyInt i \<Rightarrow> of_int i | PyFloat r \<Rightarrow> r)"

text \<open>\<^verbatim>\<open>a / b\<close> on ints: the correctly rounded quotient, or \<^verbatim>\<open>ZeroDivisionError\<close>.\<close>

definition py_truediv :: "int \<Rightarrow> int \<Rightarrow> exn + rat" where
  "py_truediv a b =
     (if b = 0 then Inl ZeroDivisionError else Inr (fl (of_int a / of_int b)))"

text \<open>Comparison of an int with a float is exact in Python.\<close>

definition py_lt :: "pynum \<Rightarrow> pynum \<Rightarrow> bool" where
  "py_lt a b = (py_value a < py_value b)"

text \<open>\<^verbatim>\<open>min(a, b)\<close> returns \<open>b\<close> if \<open>b < a\<close>, else \<open>a\<close>.\<close>

definition py_min :: "pynum \<Rightarrow> pynum \<Rightarrow> pynum" where
  "py_min a b = (if py_lt b a then b else a)"

text \<open>\<^verbatim>\<open>x * n\<close> for an int \<open>n\<close>: exact on ints; on a float, \<open>n\<close> is converted and the
  product rounded.\<close>

definition py_mul_int :: "pynum \<Rightarrow> int \<Rightarrow> pynum" where
  "py_mul_int x n =
     (case x of
        PyInt i \<Rightarrow> PyInt (i * n)
      | PyFloat r \<Rightarrow> PyFloat (fl (r * fl (of_int n))))"

text \<open>\<^verbatim>\<open>int(x)\<close> truncates towards zero.\<close>

definition py_int :: "pynum \<Rightarrow> int" where
  "py_int x =
     (case x of
        PyInt i \<Rightarrow> i
      | PyFloat r \<Rightarrow> (if 0 \<le> r then \<lfloor>r\<rfloor> else - \<lfloor>- r\<rfloor>))"

section \<open>The loudness computed by numpy\<close>

text \<open>
  \<^verbatim>\<open>_detect_silence_fallback\<close> computes
  \<^verbatim>\<open>np.sqrt(np.mean((audio_array.astype(np.float32) / 32768.0)**2))\<close> on an
  \<^verbatim>\<open>int16\<close> array: every intermediate value is an IEEE 754 binary32 number. \<open>fl32 x\<close>
  is the binary32 number nearest to \<open>x\<close>, ties to the even significand (24 bits). As
  for \<open>fl\<close>, exponents are not bounded: the values met here are samples of 16 bits
  divided by \<open>2\<^sup>1\<^sup>5\<close>, their squares (at least \<open>2\<^sup>-\<^sup>3\<^sup>0\<close> when not zero, at most 1),
  sums of those and their mean, far from overflow and from the subnormal range.
\<close>

definition fl32 :: "rat \<Rightarrow> rat" where
  "fl32 x =
     (if x = 0 then 0
      else let e = expo \<bar>x\<bar> - 23
           in of_int (round_half_even (x / pow2 e)) * pow2 e)"

text \<open>\<open>isqrt n\<close> is \<open>\<lfloor>\<surd>n\<rfloor>\<close> for an integer \<open>n\<close>, computed two bits at a time.\<close>

function isqrt :: "int \<Rightarrow> int" where
  "isqrt n =
     (if n < 1 then 0
      else let r = 2 * isqrt (n div 4)
           in if (r + 1) * (r + 1) \<le> n then r + 1 else r)"
  by pat_completeness auto
termination
  by (relation "measure nat") auto

text \<open>
  \<^verbatim>\<open>np.sqrt\<close> on a binary32 number is the correctly rounded square root. With
  \<open>2\<^sup>E \<le> x < 2\<^sup>E\<^sup>+\<^sup>1\<close> the root lies in \<open>[2\<^sup>F, 2\<^sup>F\<^sup>+\<^sup>1)\<close> for \<open>F = \<lfloor>E / 2\<rfloor>\<close>, so the
  result is \<open>m * 2\<^sup>e\<close> with \<open>e = F - 23\<close> and \<open>m\<close> the integer nearest to
  \<open>\<surd>(x / 4\<^sup>e)\<close>: the integer root \<open>f\<close> of \<open>z = x / 4\<^sup>e\<close>, or \<open>f + 1\<close> when \<open>z\<close>
  exceeds \<open>(f + 1/2)\<^sup>2\<close>. The argument is a mean of squares and never negative.
\<close>

definition sqrt32 :: "rat \<Rightarrow> rat" where
  "sqrt32 x =
     (if x \<le> 0 then 0
      else let e = expo x div 2 - 23;
               z = x / pow2 (2 * e);
               f = isqrt \<lfloor>z\<rfloor>;
               h = (of_int f + 1 / 2) * (of_int f + 1 / 2)
           in of_int (if z < h then f
                      else if h < z then f + 1
                      else if even f then f else f + 1) * pow2 e)"

text \<open>
  \<^verbatim>\<open>np.mean\<close> adds the elements in binary32, rounding after each addition, in an
  order that the \<^verbatim>\<open>numpy\<close> build fixes (blocks and pairs), not the source. The order
  is an argument of the model: a tree whose leaves are the indices of the array, each
  inner node one rounded addition. \<open>summation_of n t\<close> says that \<open>t\<close> adds each of the
  \<open>n\<close> elements once. \<open>sequential n\<close> is the plain left-to-right order on \<open>n + 1\<close>
  elements.
\<close>

datatype sum_tree = Leaf nat | Plus sum_tree sum_tree



fun sum32 :: "rat list \<Rightarrow> sum_tree \<Rightarrow> rat" where
  "sum32 xs (Leaf i) = xs ! i"
| "sum32 xs (Plus a b) = fl32 (sum32 xs a + sum32 xs b)"

fun sequential :: "nat \<Rightarrow> sum_tree" where
  "sequential 0 = Leaf 0"
| "sequential (Suc n) = Plus (sequential n) (Leaf (Suc n))"

definition sequential_order :: "nat \<Rightarrow> sum_tree" where
  "sequential_order n = sequential (n - 1)"

text \<open>
  The mean divides the binary32 sum by the element count, an integer: \<^verbatim>\<open>numpy\<close> does
  this division in binary64 and converts the quotient back to binary32. \<open>order n\<close> is
  the summation tree used for an array of \<open>n\<close> elements.
\<close>

definition np_mean :: "(nat \<Rightarrow> sum_tree) \<Rightarrow> rat list \<Rightarrow> rat" where
  "np_mean order xs = fl32 (fl (sum32 xs (order (length xs)) / of_nat (length xs)))"

text \<open>
  The three lines of the source: \<^verbatim>\<open>normalized = audio_array.astype(np.float32) / 32768.0\<close>,
  \<^verbatim>\<open>rms = np.sqrt(np.mean(normalized**2))\<close> and \<^verbatim>\<open>rms < threshold\<close>. The threshold is
  the number its Python float denotes; the comparison is a comparison of numbers.
\<close>

definition rms32 :: "(nat \<Rightarrow> sum_tree) \<Rightarrow> int list \<Rightarrow> rat" where
  "rms32 order audio_array =
     (let normalized = map (\<lambda>s. fl32 (fl32 (of_int s) / 32768)) audio_array
      in sqrt32 (np_mean order (map (\<lambda>x. fl32 (x * x)) normalized)))"

definition np_rms_below :: "(nat \<Rightarrow> sum_tree) \<Rightarrow> int list \<Rightarrow> rat \<Rightarrow> bool" where
  "np_rms_below order audio_array threshold = (rms32 order audio_array < threshold)"



section \<open>Strings\<close>

text \<open>
  File names are ASCII strings. Transcripts come from a JSON response and may hold any
  Unicode text, and \<^verbatim>\<open>str.strip()\<close> removes Unicode whitespace: a transcript is a
  list of code points, and \<open>is_space\<close> lists the code points for which Python's
  \<^verbatim>\<open>str.isspace\<close> holds.
\<close>

type_synonym path = string
type_synonym ustr = "nat list"

definition ustr_of :: "string \<Rightarrow> ustr" where
  "ustr_of s = map of_char s"

definition is_space :: "nat \<Rightarrow> bool" where
  "is_space c =
     ((9 \<le> c \<and> c \<le> 13) \<or> (28 \<le> c \<and> c \<le> 32) \<or> c = 133 \<or> c = 160 \<or> c = 5760
      \<or> (8192 \<le> c \<and> c \<le> 8202) \<or> c = 8232 \<or> c = 8233 \<or> c = 8239 \<or> c = 8287
      \<or> c = 12288)"

definition lstrip :: "ustr \<Rightarrow> ustr" where
  "lstrip s = dropWhile is_space s"

definition rstrip :: "ustr \<Rightarrow> ustr" where
  "rstrip s = rev (dropWhile is_space (rev s))"

definition strip :: "ustr \<Rightarrow> ustr" where
  "strip s = rstrip (lstrip s)"

text \<open>\<^verbatim>\<open>key in s\<close> for two strings: \<open>key\<close> occurs in \<open>s\<close> as a substring.\<close>

fun is_substring :: "'a list \<Rightarrow> 'a list \<Rightarrow> bool" where
  "is_substring key [] = (key = [])"
| "is_substring key (c # cs) = (take (length key) (c # cs) = key \<or> is_substring key cs)"

text \<open>\<^verbatim>\<open>str(n)\<close> for a natural number, for the index in a chunk's file name.\<close>

definition digit_char :: "nat \<Rightarrow> char" where
  "digit_char d = ''0123456789'' ! d"

fun str_nat :: "nat \<Rightarrow> string" where
  "str_nat n = (if n < 10 then [digit_char n] else str_nat (n div 10) @ [digit_char (n mod 10)])"

section \<open>Files, WAV audio and the world\<close>

text \<open>
  What \<^verbatim>\<open>wave.open(f, 'rb')\<close> gives: the parameters of the \<^verbatim>\<open>fmt\<close> chunk and the
  bytes of the \<^verbatim>\<open>data\<close> chunk.
\<close>

record wave_read =
  nchannels :: nat
  sampwidth :: nat
  framerate :: nat
  data_chunk :: "byte list"

text \<open>
  The code observes two things of a file: its size (\<^verbatim>\<open>os.path.getsize\<close>) and what
  the \<^verbatim>\<open>wave\<close> module reads from it, \<open>None\<close> when the module rejects the file.
\<close>

record stored_file =
  fsize :: nat
  wave :: "wave_read option"

text \<open>
  The world is the file system and a trace. The trace is not in the source: it records
  each entry into the chunker, each transcription call with the text it returned, and
  each clean-up call, so that "is invoked once" and "is not invoked" can be stated. The
  file system is a map; its operations fail where Python's fail on a missing file, and
  permission and device errors are not modelled.
\<close>

datatype event =
    SplitAudio path
  | AudioToText path ustr
  | CleanupTempFile path

record world =
  files :: "path \<Rightarrow> stored_file option"
  trace :: "event list"

definition log_event :: "event \<Rightarrow> world \<Rightarrow> world" where
  "log_event ev w = w\<lparr>trace := trace w @ [ev]\<rparr>"

definition framesize :: "wave_read \<Rightarrow> nat" where
  "framesize audio = nchannels audio * sampwidth audio"

definition getnframes :: "wave_read \<Rightarrow> nat" where
  "getnframes audio = length (data_chunk audio) div framesize audio"

text \<open>
  \<^verbatim>\<open>wave.open(input_file, 'rb')\<close>: a missing file, a file the module cannot parse,
  and a format chunk with no channels or a zero sample width raise.
\<close>

definition wave_open_rb :: "world \<Rightarrow> path \<Rightarrow> exn + wave_read" where
  "wave_open_rb w input_file =
     (case files w input_file of
        None \<Rightarrow> Inl FileNotFoundError
      | Some f \<Rightarrow>
          (case wave f of
             None \<Rightarrow> Inl WaveError
           | Some audio \<Rightarrow>
               if nchannels audio = 0 \<or> sampwidth audio = 0 then Inl WaveError
               else Inr audio))"

text \<open>\<^verbatim>\<open>audio.setpos(pos)\<close> raises outside \<open>0 .. nframes\<close>.\<close>

definition setpos :: "wave_read \<Rightarrow> int \<Rightarrow> exn + nat" where
  "setpos audio pos =
     (if pos < 0 \<or> int (getnframes audio) < pos then Inl WaveError else Inr (nat pos))"

text \<open>
  \<^verbatim>\<open>audio.readframes(n)\<close> at position \<open>pos\<close>: at most \<open>n\<close> frames, fewer at the end
  of the data; a negative \<open>n\<close> reads all that is left.
\<close>

definition readframes :: "wave_read \<Rightarrow> nat \<Rightarrow> int \<Rightarrow> byte list" where
  "readframes audio pos n =
     (let rest = drop (pos * framesize audio) (data_chunk audio)
      in if n < 0 then rest else take (nat n * framesize audio) rest)"

text \<open>
  Writing a chunk: \<^verbatim>\<open>wave.open(chunk_filename, 'wb')\<close> creates the file empty;
  \<^verbatim>\<open>setnchannels\<close>, \<^verbatim>\<open>setsampwidth\<close> (1 to 4 bytes) and \<^verbatim>\<open>setframerate\<close> raise on
  values the writer refuses, and the file then stays empty; otherwise the file holds a
  44-byte header and the frames.
\<close>

definition empty_file :: stored_file where
  "empty_file = \<lparr>fsize = 0, wave = None\<rparr>"

definition wave_write ::
    "world \<Rightarrow> path \<Rightarrow> nat \<Rightarrow> nat \<Rightarrow> nat \<Rightarrow> byte list \<Rightarrow> (exn + unit) \<times> world" where
  "wave_write w chunk_filename nch width rate chunk_frames =
     (if nch < 1 \<or> width < 1 \<or> 4 < width \<or> rate = 0
      then (Inl WaveError, w\<lparr>files := (files w)(chunk_filename \<mapsto> empty_file)\<rparr>)
      else (Inr (),
            w\<lparr>files := (files w)(chunk_filename \<mapsto>
                 \<lparr>fsize = 44 + length chunk_frames,
                  wave = Some \<lparr>nchannels = nch, sampwidth = width, framerate = rate,
                               data_chunk = chunk_frames\<rparr>\<rparr>)\<rparr>))"

section \<open>The chunker\<close>

definition chunk_filename :: "nat \<Rightarrow> path" where
  "chunk_filename index = ''chunk_'' @ str_nat index @ ''.wav''"

text \<open>
  \<^verbatim>\<open>_create_audio_chunk\<close>: the frame range is \<^verbatim>\<open>int(start_time * frame_rate)\<close> up to
  \<^verbatim>\<open>int(end_time * frame_rate)\<close>. Any exception gives \<^verbatim>\<open>None\<close>.
\<close>

definition start_frame :: "pynum \<Rightarrow> nat \<Rightarrow> int" where
  "start_frame start_time frame_rate = py_int (py_mul_int start_time (int frame_rate))"

definition end_frame :: "pynum \<Rightarrow> nat \<Rightarrow> int" where
  "end_frame end_time frame_rate = py_int (py_mul_int end_time (int frame_rate))"

definition create_audio_chunk ::
    "world \<Rightarrow> wave_read \<Rightarrow> pynum \<Rightarrow> pynum \<Rightarrow> nat \<Rightarrow> nat \<Rightarrow> path option \<times> world" where
  "create_audio_chunk w audio start_time end_time frame_rate index =
     (case setpos audio (start_frame start_time frame_rate) of
        Inl e \<Rightarrow> (None, w)
      | Inr pos \<Rightarrow>
          (case wave_write w (chunk_filename index) (nchannels audio) (sampwidth audio)
                  frame_rate
                  (readframes audio pos
                     (end_frame end_time frame_rate - start_frame start_time frame_rate)) of
             (Inl e, w') \<Rightarrow> (None, w')
           | (Inr u, w') \<Rightarrow> (Some (chunk_filename index), w')))"

text \<open>
  The \<^verbatim>\<open>while\<close> loop of \<^verbatim>\<open>split_audio\<close>. With a chunk length that is not positive
  it does not end; \<open>None\<close> is the loop that never returns. The reader \<open>audio\<close> is the
  input file as it was when opened. The code reads the frames from the open file as
  it goes; the two agree unless the input file itself bears the name of a chunk that
  the loop writes (\<^verbatim>\<open>chunk_N.wav\<close> in the working directory), where the code reads
  on from the file it has just overwritten. That case changes the frames of later
  chunks only: their names, their number, the trace and the end of the loop are the
  same.
\<close>

partial_function (option) split_loop ::
    "wave_read \<Rightarrow> nat \<Rightarrow> rat \<Rightarrow> int \<Rightarrow> int \<Rightarrow> nat \<Rightarrow> path list \<Rightarrow> world
      \<Rightarrow> (path list \<times> world) option" where
  "split_loop audio frame_rate total_duration chunk_length start_time index chunks w =
     (if py_lt (PyInt start_time) (PyFloat total_duration) then
        (case create_audio_chunk w audio (PyInt start_time)
                (py_min (PyInt (start_time + chunk_length)) (PyFloat total_duration))
                frame_rate index of
           (chunk, w') \<Rightarrow>
             split_loop audio frame_rate total_duration chunk_length
               (start_time + chunk_length) (index + 1)
               (case chunk of None \<Rightarrow> chunks | Some name \<Rightarrow> chunks @ [name]) w')
      else Some (chunks, w))"

definition split_audio :: "world \<Rightarrow> path \<Rightarrow> int \<Rightarrow> (path list \<times> world) option" where
  "split_audio w input_file chunk_length =
     (let w0 = log_event (SplitAudio input_file) w in
      case wave_open_rb w0 input_file of
        Inl e \<Rightarrow> Some ([], w0)
      | Inr audio \<Rightarrow>
          (case py_truediv (int (getnframes audio)) (int (framerate audio)) of
             Inl e \<Rightarrow> Some ([], w0)
           | Inr total_duration \<Rightarrow>
               split_loop audio (framerate audio) total_duration chunk_length 0 1 [] w0))"

section \<open>The transcription call\<close>

text \<open>
  \<^verbatim>\<open>audio_to_text\<close> (\<^verbatim>\<open>pages/api_utils.py\<close>) posts a file to the speech-to-text
  service and extracts the transcript from the JSON answer. A JSON value is modelled
  with the distinctions the extraction makes; a number carries its text.
\<close>

datatype json =
    JNull
  | JBool bool
  | JNum ustr
  | JStr ustr
  | JList "json list"
  | JDict "(ustr \<times> json) list"

text \<open>
  \<^verbatim>\<open>key in payload\<close>: a key of a dict, an element of a list, a substring of a string;
  \<^verbatim>\<open>TypeError\<close> on the values that are not containers.
\<close>

definition py_contains :: "ustr \<Rightarrow> json \<Rightarrow> exn + bool" where
  "py_contains key payload =
     (case payload of
        JDict d \<Rightarrow> Inr (map_of d key \<noteq> None)
      | JList xs \<Rightarrow> Inr (List.member xs (JStr key))
      | JStr s \<Rightarrow> Inr (is_substring key s)
      | _ \<Rightarrow> Inl TypeError)"

text \<open>\<^verbatim>\<open>payload[key]\<close> for a string key: only a dict can answer.\<close>

definition py_getitem :: "json \<Rightarrow> ustr \<Rightarrow> exn + json" where
  "py_getitem payload key =
     (case payload of
        JDict d \<Rightarrow> (case map_of d key of None \<Rightarrow> Inl KeyError | Some v \<Rightarrow> Inr v)
      | _ \<Rightarrow> Inl TypeError)"

text \<open>
  \<^verbatim>\<open>str(v)\<close>: a string is itself; the text Python prints for any other value is a
  parameter \<open>py_repr\<close>.
\<close>

definition py_str :: "(json \<Rightarrow> ustr) \<Rightarrow> json \<Rightarrow> ustr" where
  "py_str py_repr v = (case v of JStr s \<Rightarrow> s | _ \<Rightarrow> py_repr v)"

text \<open>
  The first loop of \<^verbatim>\<open>_extract_transcript_from_response\<close>, over the keys
  \<^verbatim>\<open>text\<close>, \<^verbatim>\<open>transcript\<close>, \<^verbatim>\<open>output\<close>: \<open>Inr (Some t)\<close> is \<^verbatim>\<open>return t\<close>,
  \<open>Inr None\<close> is the loop running to its end.
\<close>

fun extract_top_level :: "json \<Rightarrow> ustr list \<Rightarrow> exn + ustr option" where
  "extract_top_level payload [] = Inr None"
| "extract_top_level payload (key # keys) =
     (case py_contains key payload of
        Inl e \<Rightarrow> Inl e
      | Inr False \<Rightarrow> extract_top_level payload keys
      | Inr True \<Rightarrow>
          (case py_getitem payload key of
             Inl e \<Rightarrow> Inl e
           | Inr (JStr s) \<Rightarrow> Inr (Some (strip s))
           | Inr _ \<Rightarrow> extract_top_level payload keys))"

text \<open>The second loop, over the keys \<^verbatim>\<open>text\<close> and \<^verbatim>\<open>transcript\<close> of the nested result.\<close>

fun extract_nested :: "(json \<Rightarrow> ustr) \<Rightarrow> json \<Rightarrow> ustr list \<Rightarrow> exn + ustr option" where
  "extract_nested py_repr result [] = Inr None"
| "extract_nested py_repr result (key # keys) =
     (case py_contains key result of
        Inl e \<Rightarrow> Inl e
      | Inr False \<Rightarrow> extract_nested py_repr result keys
      | Inr True \<Rightarrow>
          (case py_getitem result key of
             Inl e \<Rightarrow> Inl e
           | Inr v \<Rightarrow> Inr (Some (strip (py_str py_repr v)))))"

definition is_dict :: "json \<Rightarrow> bool" where
  "is_dict v = (case v of JDict d \<Rightarrow> True | _ \<Rightarrow> False)"

definition extract_transcript_from_response :: "(json \<Rightarrow> ustr) \<Rightarrow> json \<Rightarrow> exn + ustr" where
  "extract_transcript_from_response py_repr payload =
     (case extract_top_level payload
             [ustr_of ''text'', ustr_of ''transcript'', ustr_of ''output''] of
        Inl e \<Rightarrow> Inl e
      | Inr (Some t) \<Rightarrow> Inr t
      | Inr None \<Rightarrow>
          (case py_contains (ustr_of ''result'') payload of
             Inl e \<Rightarrow> Inl e
           | Inr False \<Rightarrow> Inr []
           | Inr True \<Rightarrow>
               (case py_getitem payload (ustr_of ''result'') of
                  Inl e \<Rightarrow> Inl e
                | Inr result \<Rightarrow>
                    if is_dict result then
                      (case extract_nested py_repr result
                              [ustr_of ''text'', ustr_of ''transcript''] of
                         Inl e \<Rightarrow> Inl e
                       | Inr (Some t) \<Rightarrow> Inr t
                       | Inr None \<Rightarrow> Inr [])
                    else Inr [])))"

text \<open>
  What lies outside the repository is a parameter: whether \<^verbatim>\<open>.api_utils\<close> can be
  imported, the API key of the environment, the outcome of \<^verbatim>\<open>requests.post\<close> (it may
  raise; a response has a status and a body, \<open>None\<close> when \<^verbatim>\<open>response.json()\<close>
  raises), and \<open>py_repr\<close>. The answer of the service may depend on how many calls
  went before (the length of the trace), on the path and on the file.
\<close>

datatype http_response = Response (status_code: nat) (json_body: "json option")

record env =
  api_utils_importable :: bool
  SARVAM_API_KEY :: "string option"
  requests_post :: "nat \<Rightarrow> path \<Rightarrow> stored_file \<Rightarrow> exn + http_response"
  python_repr :: "json \<Rightarrow> ustr"

text \<open>The \<^verbatim>\<open>try\<close> block of \<^verbatim>\<open>audio_to_text\<close>: the request and the extraction.\<close>

definition audio_to_text_try :: "env \<Rightarrow> world \<Rightarrow> path \<Rightarrow> stored_file \<Rightarrow> exn + ustr" where
  "audio_to_text_try ev w audio_file_path f =
     (case requests_post ev (length (trace w)) audio_file_path f of
        Inl e \<Rightarrow> Inl e
      | Inr response \<Rightarrow>
          if status_code response = 200 then
            (case json_body response of
               None \<Rightarrow> Inl ValueError
             | Some payload \<Rightarrow> extract_transcript_from_response (python_repr ev) payload)
          else Inr [])"

definition audio_to_text_result :: "env \<Rightarrow> world \<Rightarrow> path \<Rightarrow> ustr" where
  "audio_to_text_result ev w audio_file_path =
     (case SARVAM_API_KEY ev of
        None \<Rightarrow> []
      | Some api_key \<Rightarrow>
          if api_key = [] then []
          else (case files w audio_file_path of
                  None \<Rightarrow> []
                | Some f \<Rightarrow>
                    if fsize f = 0 then []
                    else (case audio_to_text_try ev w audio_file_path f of
                            Inl e \<Rightarrow> []
                          | Inr t \<Rightarrow> t)))"

definition audio_to_text :: "env \<Rightarrow> world \<Rightarrow> path \<Rightarrow> ustr \<times> world" where
  "audio_to_text ev w audio_file_path =
     (let t = audio_to_text_result ev w audio_file_path
      in (t, log_event (AudioToText audio_file_path t) w))"

section \<open>The orchestrator\<close>

text \<open>\<^verbatim>\<open>os.remove\<close> raises on a missing file; \<^verbatim>\<open>_cleanup_temp_file\<close> checks first and
  swallows what is raised.\<close>

definition os_remove :: "world \<Rightarrow> path \<Rightarrow> exn + world" where
  "os_remove w p =
     (case files w p of
        None \<Rightarrow> Inl FileNotFoundError
      | Some f \<Rightarrow> Inr (w\<lparr>files := (files w)(p := None)\<rparr>))"

definition cleanup_temp_file :: "world \<Rightarrow> path \<Rightarrow> world" where
  "cleanup_temp_file w temp_file =
     (let w0 = log_event (CleanupTempFile temp_file) w
      in if files w0 temp_file \<noteq> None
         then (case os_remove w0 temp_file of Inl e \<Rightarrow> w0 | Inr w1 \<Rightarrow> w1)
         else w0)"

text \<open>The \<^verbatim>\<open>for chunk in chunks\<close> loop, with the accumulator \<^verbatim>\<open>final_transcript\<close>.\<close>

fun chunk_loop :: "env \<Rightarrow> path list \<Rightarrow> ustr \<Rightarrow> world \<Rightarrow> ustr \<times> world" where
  "chunk_loop ev [] final_transcript w = (final_transcript, w)"
| "chunk_loop ev (chunk # chunks) final_transcript w =
     (case audio_to_text ev w chunk of
        (transcript, w1) \<Rightarrow>
          chunk_loop ev chunks
            (if transcript \<noteq> [] then final_transcript @ transcript @ [32] else final_transcript)
            (cleanup_temp_file w1 chunk))"

text \<open>
  The \<^verbatim>\<open>try\<close> block of \<^verbatim>\<open>process_long_audio\<close>: \<open>Inl\<close> is an exception that leaves
  it, \<open>Inr\<close> a returned string, and \<open>None\<close> a chunker that never returns. Then the
  function, whose handler turns every exception into the empty string.
\<close>

definition process_long_audio_try ::
    "env \<Rightarrow> world \<Rightarrow> path \<Rightarrow> ((exn + ustr) \<times> world) option" where
  "process_long_audio_try ev w input_file =
     (if \<not> api_utils_importable ev then Some (Inl ImportError, w)
      else
        (case files w input_file of
           None \<Rightarrow> Some (Inr [], w)
         | Some f \<Rightarrow>
             if fsize f = 0 then Some (Inr [], w)
             else
               (case split_audio w input_file 30 of
                  None \<Rightarrow> None
                | Some (chunks, w1) \<Rightarrow>
                    if chunks = [] then
                      (case audio_to_text ev w1 input_file of
                         (transcript, w2) \<Rightarrow>
                           Some (Inr (if transcript \<noteq> [] then strip transcript else []), w2))
                    else
                      (case chunk_loop ev chunks [] w1 of
                         (final_transcript, w2) \<Rightarrow>
                           Some (Inr (strip final_transcript), w2)))))"

definition process_long_audio :: "env \<Rightarrow> world \<Rightarrow> path \<Rightarrow> (ustr \<times> world) option" where
  "process_long_audio ev w input_file =
     (case process_long_audio_try ev w input_file of
        None \<Rightarrow> None
      | Some (Inl e, w') \<Rightarrow> Some ([], w')
      | Some (Inr transcript, w') \<Rightarrow> Some (transcript, w'))"

section \<open>A scenario\<close>

text \<open>
  The scenario of the specification's test list, used to run the theorems on concrete
  data: a recording of 75 seconds (16-bit stereo at 2 frames per second, 150 frames of
  silence), and a service that answers the first chunk with the text \<open>" hello "\<close>, fails
  on the second with status 500, and answers every other file with a nested result
  \<open>"world"\<close>.
\<close>

definition recording_75 :: world where
  "recording_75 =
     \<lparr>files = [''rec.wav'' \<mapsto>
         \<lparr>fsize = 644,
          wave = Some \<lparr>nchannels = 2, sampwidth = 2, framerate = 2,
                       data_chunk = replicate 600 0\<rparr>\<rparr>],
      trace = []\<rparr>"

definition service_75 :: env where
  "service_75 =
     \<lparr>api_utils_importable = True,
      SARVAM_API_KEY = Some ''key'',
      requests_post = (\<lambda>n p f.
         if p = ''chunk_1.wav''
         then Inr (Response 200 (Some (JDict [(ustr_of ''text'', JStr (ustr_of '' hello ''))])))
         else if p = ''chunk_2.wav'' then Inr (Response 500 None)
         else Inr (Response 200 (Some (JDict [(ustr_of ''result'',
                 JDict [(ustr_of ''transcript'', JStr (ustr_of ''world''))])])))),
      python_repr = (\<lambda>v. [])\<rparr>"

text \<open>A file that is not WAV audio: the chunker cannot open it.\<close>

definition upload_note :: world where
  "upload_note = \<lparr>files = [''note.bin'' \<mapsto> \<lparr>fsize = 10, wave = None\<rparr>], trace = []\<rparr>"

section \<open>Properties of the fallback WAV builder\<close>

lemma uint_byte: "uint (word_of_int n :: byte) = n mod 256"
  by (simp add: uint_word_of_int)

lemma from_bytes_map:
  "from_bytes (map (\<lambda>i. word_of_int (n div 256 ^ i)) [0..<len]) = n mod 256 ^ len"
proof (induction len arbitrary: n)
  case 0
  then show ?case by simp
next
  case (Suc len)
  have "[0..<Suc len] = 0 # map Suc [0..<len]"
    by (simp add: upt_conv_Cons map_Suc_upt del: upt_Suc)
  then have "from_bytes (map (\<lambda>i. word_of_int (n div 256 ^ i)) [0..<Suc len])
      = n mod 256 + 256 * from_bytes (map (\<lambda>i. word_of_int ((n div 256) div 256 ^ i)) [0..<len])"
    by (simp add: uint_byte comp_def zdiv_zmult2_eq del: upt_Suc)
  also have "\<dots> = n mod 256 + 256 * ((n div 256) mod 256 ^ len)"
    by (simp only: Suc.IH)
  also have "\<dots> = n mod (256 * 256 ^ len)"
    by (simp add: zmod_zmult2_eq)
  finally show ?case by simp
qed

lemma to_bytes_ok:
  assumes "0 \<le> n" "n < 256 ^ len"
  shows "\<exists>bs. to_bytes n len = Inr bs \<and> length bs = len \<and> from_bytes bs = n"
  using assms by (simp add: to_bytes_def from_bytes_map)

lemma extend_Inr: "extend_bytes (Inr a) (Inr b) = Inr (a @ b)"
  by (simp add: extend_bytes_def bind_exn_def)

lemma wav_header_ok:
  assumes "0 \<le> n" "36 + n < 2 ^ 32"
  shows "\<exists>a b. to_bytes (36 + n) 4 = Inr a \<and> to_bytes n 4 = Inr b \<and> length a = 4 \<and> length b = 4
     \<and> from_bytes a = 36 + n \<and> from_bytes b = n
     \<and> wav_header n = Inr (RIFF @ a @ WAVE @ fmt_tag @ [16,0,0,0] @ [1,0] @ [1,0] @ [0x44,0xAC,0,0]
           @ [0x88,0x58,1,0] @ [2,0] @ [16,0] @ data_tag @ b)"
proof -
  from assms obtain a where a: "to_bytes (36 + n) 4 = Inr a" "length a = 4" "from_bytes a = 36 + n"
    using to_bytes_ok [of "36 + n" 4] by auto
  from assms obtain b where b: "to_bytes n 4 = Inr b" "length b = 4" "from_bytes b = n"
    using to_bytes_ok [of n 4] by auto
  have c: "to_bytes 16 4 = Inr [16,0,0,0]" "to_bytes 1 2 = Inr [1,0]"
    "to_bytes num_channels 2 = Inr [1,0]" "to_bytes sample_rate 4 = Inr [0x44,0xAC,0,0]"
    "to_bytes (sample_rate * num_channels * bits_per_sample div 8) 4 = Inr [0x88,0x58,1,0]"
    "to_bytes (num_channels * bits_per_sample div 8) 2 = Inr [2,0]"
    "to_bytes bits_per_sample 2 = Inr [16,0]"
    by (simp_all add: to_bytes_def sample_rate_def num_channels_def bits_per_sample_def upt_rec)
  have "wav_header n = Inr (RIFF @ a @ WAVE @ fmt_tag @ [16,0,0,0] @ [1,0] @ [1,0] @ [0x44,0xAC,0,0]
           @ [0x88,0x58,1,0] @ [2,0] @ [16,0] @ data_tag @ b)"
    unfolding wav_header_def by (simp add: a b c extend_Inr)
  with a b show ?thesis by blast
qed

lemma create_basic_wav_fields:
  assumes "36 + int (length audio_data) < 2 ^ 32"
  shows "\<exists>h. create_basic_wav audio_data = Some (h @ audio_data)
     \<and> length h = 44
     \<and> py_slice h 0 4 = RIFF
     \<and> from_bytes (py_slice h 4 8) = 36 + int (length audio_data)
     \<and> py_slice h 8 12 = WAVE
     \<and> py_slice h 12 16 = fmt_tag
     \<and> from_bytes (py_slice h 16 20) = 16
     \<and> from_bytes (py_slice h 20 22) = 1
     \<and> from_bytes (py_slice h 22 24) = num_channels
     \<and> from_bytes (py_slice h 24 28) = sample_rate
     \<and> from_bytes (py_slice h 28 32) = sample_rate * num_channels * bits_per_sample div 8
     \<and> from_bytes (py_slice h 32 34) = num_channels * bits_per_sample div 8
     \<and> from_bytes (py_slice h 34 36) = bits_per_sample
     \<and> py_slice h 36 40 = data_tag
     \<and> from_bytes (py_slice h 40 44) = int (length audio_data)"
proof -
  let ?n = "int (length audio_data)"
  from assms obtain a b where ab: "length a = 4" "length b = 4"
     "from_bytes a = 36 + ?n" "from_bytes b = ?n"
     and h: "wav_header ?n = Inr (RIFF @ a @ WAVE @ fmt_tag @ [16,0,0,0] @ [1,0] @ [1,0] @ [0x44,0xAC,0,0]
           @ [0x88,0x58,1,0] @ [2,0] @ [16,0] @ data_tag @ b)"
    using wav_header_ok [of ?n] by auto
  let ?h = "RIFF @ a @ WAVE @ fmt_tag @ [16,0,0,0] @ [1,0] @ [1,0] @ [0x44,0xAC,0,0]
           @ [0x88,0x58,1,0] @ [2,0] @ [16,0] @ data_tag @ b"
  have 1: "create_basic_wav audio_data = Some (?h @ audio_data)"
    by (simp add: create_basic_wav_def h)
  have 2: "length ?h = 44" by (simp add: ab RIFF_def WAVE_def fmt_tag_def data_tag_def)
  have 3: "py_slice ?h 0 4 = RIFF" "py_slice ?h 8 12 = WAVE" "py_slice ?h 12 16 = fmt_tag" "py_slice ?h 36 40 = data_tag"
    by (simp_all add: py_slice_def ab RIFF_def WAVE_def fmt_tag_def data_tag_def)
  have 4: "from_bytes (py_slice ?h 4 8) = 36 + ?n" "from_bytes (py_slice ?h 40 44) = ?n"
    by (simp_all add: py_slice_def ab RIFF_def WAVE_def fmt_tag_def data_tag_def)
  have 5: "from_bytes (py_slice ?h 16 20) = 16" "from_bytes (py_slice ?h 20 22) = 1"
     "from_bytes (py_slice ?h 22 24) = num_channels" "from_bytes (py_slice ?h 24 28) = sample_rate"
     "from_bytes (py_slice ?h 28 32) = sample_rate * num_channels * bits_per_sample div 8"
     "from_bytes (py_slice ?h 32 34) = num_channels * bits_per_sample div 8"
     "from_bytes (py_slice ?h 34 36) = bits_per_sample"
    by (simp_all add: py_slice_def ab RIFF_def WAVE_def fmt_tag_def data_tag_def
         sample_rate_def num_channels_def bits_per_sample_def)
  show ?thesis
    apply (rule exI [of _ ?h])
    using 1 2 3 4 5 by blast
qed

lemma create_basic_wav_none:
  assumes "2 ^ 32 \<le> 36 + int (length audio_data)"
  shows "create_basic_wav audio_data = None"
  using assms
  by (simp add: create_basic_wav_def wav_header_def to_bytes_def extend_bytes_def bind_exn_def)

text \<open>
  Claim C2, as the code has it. For every payload with \<open>36 + dataLength < 2\<^sup>3\<^sup>2\<close> the
  builder returns a 44-byte header followed by the payload unchanged. The header
  carries the tags \<^verbatim>\<open>RIFF\<close>, \<^verbatim>\<open>WAVE\<close>, \<^verbatim>\<open>fmt \<close> and \<^verbatim>\<open>data\<close>; its
  RIFF chunk size field reads \<open>36 + dataLength\<close>, its data size field reads
  \<open>dataLength\<close>, its byte-rate field reads \<open>sampleRate * channels * bitsPerSample div 8\<close>
  and its block-align field reads \<open>channels * bitsPerSample div 8\<close>, each as an
  unsigned little-endian integer. For every larger payload \<^verbatim>\<open>to_bytes\<close> raises
  \<^verbatim>\<open>OverflowError\<close> and the builder returns \<^verbatim>\<open>None\<close>.
\<close>

theorem create_basic_wav_header:
  "(36 + int (length audio_data) < 2 ^ 32 \<longrightarrow>
      (\<exists>h. create_basic_wav audio_data = Some (h @ audio_data)
         \<and> length h = 44
         \<and> py_slice h 0 4 = RIFF
         \<and> from_bytes (py_slice h 4 8) = 36 + int (length audio_data)
         \<and> py_slice h 8 12 = WAVE
         \<and> py_slice h 12 16 = fmt_tag
         \<and> from_bytes (py_slice h 16 20) = 16
         \<and> from_bytes (py_slice h 20 22) = 1
         \<and> from_bytes (py_slice h 22 24) = num_channels
         \<and> from_bytes (py_slice h 24 28) = sample_rate
         \<and> from_bytes (py_slice h 28 32) = sample_rate * num_channels * bits_per_sample div 8
         \<and> from_bytes (py_slice h 32 34) = num_channels * bits_per_sample div 8
         \<and> from_bytes (py_slice h 34 36) = bits_per_sample
         \<and> py_slice h 36 40 = data_tag
         \<and> from_bytes (py_slice h 40 44) = int (length audio_data)))
   \<and> (2 ^ 32 \<le> 36 + int (length audio_data) \<longrightarrow> create_basic_wav audio_data = None)"
  using create_basic_wav_fields [of audio_data] create_basic_wav_none [of audio_data]
  by blast

text \<open>
  The theorem of claim C2 at a payload of three bytes, and at a payload one byte
  longer than the size fields can hold.
\<close>

theorem create_basic_wav_header_witness:
  "(\<exists>h. create_basic_wav [1, 2, 3] = Some (h @ [1, 2, 3]) \<and> length h = 44
      \<and> from_bytes (py_slice h 4 8) = 39 \<and> from_bytes (py_slice h 40 44) = 3)
   \<and> create_basic_wav (replicate (2 ^ 32 - 35) 0) = None"
proof -
  have "\<exists>h. create_basic_wav [1, 2, 3] = Some (h @ [1, 2, 3]) \<and> length h = 44
      \<and> from_bytes (py_slice h 4 8) = 39 \<and> from_bytes (py_slice h 40 44) = 3"
    using create_basic_wav_header [of "[1, 2, 3]"] by auto
  moreover have "create_basic_wav (replicate (2 ^ 32 - 35) 0) = None"
    using create_basic_wav_header [of "replicate (2 ^ 32 - 35) 0"] by simp
  ultimately show ?thesis by blast
qed

text \<open>
  Claim C2 as stated, for every \<open>dataLength \<ge> 0\<close>, fails: a payload of
  \<open>2\<^sup>3\<^sup>2 - 36\<close> bytes makes \<^verbatim>\<open>(36 + data_length).to_bytes(4, 'little')\<close> raise
  \<^verbatim>\<open>OverflowError\<close>, which the handler turns into \<^verbatim>\<open>None\<close>: no header is produced.
\<close>

theorem create_basic_wav_overflow:
  "create_basic_wav (replicate (2 ^ 32 - 36) 0) = None"
  by (simp add: create_basic_wav_def wav_header_def to_bytes_def extend_bytes_def bind_exn_def RIFF_def)

section \<open>Properties of the format normaliser\<close>

lemma create_basic_wav_some:
  assumes "36 + int (length audio_data) < 2 ^ 32"
  shows "\<exists>h. create_basic_wav audio_data = Some (h @ audio_data) \<and> length h = 44"
proof -
  from assms obtain a b where "length a = 4" "length b = 4"
     and h: "wav_header (int (length audio_data)) =
        Inr (RIFF @ a @ WAVE @ fmt_tag @ [16,0,0,0] @ [1,0] @ [1,0] @ [0x44,0xAC,0,0]
           @ [0x88,0x58,1,0] @ [2,0] @ [16,0] @ data_tag @ b)"
    using wav_header_ok [of "int (length audio_data)"] by auto
  then show ?thesis
    by (simp add: create_basic_wav_def RIFF_def WAVE_def fmt_tag_def data_tag_def)
qed

lemma convert_webm_to_wav_signature:
  assumes "py_slice audio_bytes 0 4 = RIFF" and "py_slice audio_bytes 8 12 = WAVE"
    and "100 \<le> length audio_bytes"
    and "falsy (try_soundfile_conversion sf audio_bytes)"
  shows "convert_webm_to_wav sf audio_bytes = Some audio_bytes"
proof -
  from assms(3) have ne: "audio_bytes \<noteq> []" by auto
  have chk: "check_existing_wav_format audio_bytes = Some audio_bytes"
    using assms(1,2) by (simp add: check_existing_wav_format_def)
  have nf: "\<not> falsy (Some audio_bytes)" using ne by (simp add: falsy_def)
  show ?thesis
    using assms(3,4) ne nf by (simp add: convert_webm_to_wav_def chk Let_def)
qed

lemma convert_webm_to_wav_decoded:
  assumes "100 \<le> length audio_bytes"
    and "\<not> falsy (try_soundfile_conversion sf audio_bytes)"
  shows "convert_webm_to_wav sf audio_bytes = try_soundfile_conversion sf audio_bytes"
proof -
  from assms(1) have "audio_bytes \<noteq> []" by auto
  with assms show ?thesis
    by (simp add: convert_webm_to_wav_def Let_def)
qed

text \<open>
  Claim C3, as the code has it. For every byte sequence of at least 100 bytes whose
  first four bytes are \<^verbatim>\<open>RIFF\<close> and whose bytes 8 to 11 are \<^verbatim>\<open>WAVE\<close>, when the
  decode library gives nothing (it is unavailable, it raises, or its output is empty),
  normalize returns the input unchanged, byte for byte: the passthrough strategy
  answers, the fallback synthesis is not reached. When the library decode gives
  bytes, normalize returns those, whatever the signature of the input.
\<close>

theorem convert_webm_to_wav_passthrough:
  "(py_slice audio_bytes 0 4 = RIFF \<and> py_slice audio_bytes 8 12 = WAVE
      \<and> 100 \<le> length audio_bytes \<and> falsy (try_soundfile_conversion sf audio_bytes)
     \<longrightarrow> convert_webm_to_wav sf audio_bytes = Some audio_bytes)
   \<and> (100 \<le> length audio_bytes \<and> \<not> falsy (try_soundfile_conversion sf audio_bytes)
     \<longrightarrow> convert_webm_to_wav sf audio_bytes = try_soundfile_conversion sf audio_bytes)"
  using convert_webm_to_wav_signature [of audio_bytes sf]
    convert_webm_to_wav_decoded [of audio_bytes sf]
  by blast

text \<open>
  The theorem of claim C3 at a 104-byte input, with the library unavailable and with
  a library that writes back the first 44 bytes.
\<close>

theorem convert_webm_to_wav_passthrough_witness:
  "convert_webm_to_wav \<lparr>SOUNDFILE_AVAILABLE = False, sf_read_write = Inr\<rparr>
      (RIFF @ [96, 0, 0, 0] @ WAVE @ replicate 92 0)
   = Some (RIFF @ [96, 0, 0, 0] @ WAVE @ replicate 92 0)
   \<and> convert_webm_to_wav \<lparr>SOUNDFILE_AVAILABLE = True, sf_read_write = Inr \<circ> take 44\<rparr>
      (RIFF @ [96, 0, 0, 0] @ WAVE @ replicate 92 0)
   = Some (RIFF @ [96, 0, 0, 0] @ WAVE @ replicate 32 0)"
  using convert_webm_to_wav_passthrough
      [of "RIFF @ [96, 0, 0, 0] @ WAVE @ replicate 92 0"
          "\<lparr>SOUNDFILE_AVAILABLE = False, sf_read_write = Inr\<rparr>"]
    convert_webm_to_wav_passthrough
      [of "RIFF @ [96, 0, 0, 0] @ WAVE @ replicate 92 0"
          "\<lparr>SOUNDFILE_AVAILABLE = True, sf_read_write = Inr \<circ> take 44\<rparr>"]
  by (simp add: py_slice_def RIFF_def WAVE_def falsy_def try_soundfile_conversion_def)

text \<open>
  Claim C3 as stated, for every input with the signature, fails: the library decode
  is the first strategy, and what it returns wins. Here the input is a canonical
  100-byte WAV file followed by four stray bytes, and the library writes the
  100-byte file back: normalize returns the re-encoded bytes, not the input.
\<close>

theorem convert_webm_to_wav_passthrough_counterexample:
  "py_slice (
      [82, 73, 70, 70, 92, 0, 0, 0, 87, 65, 86, 69, 102, 109, 116, 32, 16, 0, 0, 0,
       1, 0, 1, 0, 68, 172, 0, 0, 136, 88, 1, 0, 2, 0, 16, 0,
       100, 97, 116, 97, 56, 0, 0, 0] @ replicate 56 0 @ [1, 2, 3, 4]) 0 4 = RIFF
   \<and> py_slice (
      [82, 73, 70, 70, 92, 0, 0, 0, 87, 65, 86, 69, 102, 109, 116, 32, 16, 0, 0, 0,
       1, 0, 1, 0, 68, 172, 0, 0, 136, 88, 1, 0, 2, 0, 16, 0,
       100, 97, 116, 97, 56, 0, 0, 0] @ replicate 56 0 @ [1, 2, 3, 4]) 8 12 = WAVE
   \<and> 100 \<le> length (
      [82, 73, 70, 70, 92, 0, 0, 0, 87, 65, 86, 69, 102, 109, 116, 32, 16, 0, 0, 0,
       1, 0, 1, 0, 68, 172, 0, 0, 136, 88, 1, 0, 2, 0, 16, 0,
       100, 97, 116, 97, 56, 0, 0, 0] @ replicate 56 0 @ [1, 2, 3, 4 :: byte])
   \<and> convert_webm_to_wav \<lparr>SOUNDFILE_AVAILABLE = True, sf_read_write = Inr \<circ> take 100\<rparr>
        (
      [82, 73, 70, 70, 92, 0, 0, 0, 87, 65, 86, 69, 102, 109, 116, 32, 16, 0, 0, 0,
       1, 0, 1, 0, 68, 172, 0, 0, 136, 88, 1, 0, 2, 0, 16, 0,
       100, 97, 116, 97, 56, 0, 0, 0] @ replicate 56 0 @ [1, 2, 3, 4])
      = Some (
      [82, 73, 70, 70, 92, 0, 0, 0, 87, 65, 86, 69, 102, 109, 116, 32, 16, 0, 0, 0,
       1, 0, 1, 0, 68, 172, 0, 0, 136, 88, 1, 0, 2, 0, 16, 0,
       100, 97, 116, 97, 56, 0, 0, 0] @ replicate 56 0)
   \<and> 
      [82, 73, 70, 70, 92, 0, 0, 0, 87, 65, 86, 69, 102, 109, 116, 32, 16, 0, 0, 0,
       1, 0, 1, 0, 68, 172, 0, 0, 136, 88, 1, 0, 2, 0, 16, 0,
       100, 97, 116, 97, 56, 0, 0, 0] @ replicate 56 0 \<noteq> 
      [82, 73, 70, 70, 92, 0, 0, 0, 87, 65, 86, 69, 102, 109, 116, 32, 16, 0, 0, 0,
       1, 0, 1, 0, 68, 172, 0, 0, 136, 88, 1, 0, 2, 0, 16, 0,
       100, 97, 116, 97, 56, 0, 0, 0] @ replicate 56 0 @ [1, 2, 3, 4 :: byte]"
  by (simp add: py_slice_def RIFF_def WAVE_def convert_webm_to_wav_def
      try_soundfile_conversion_def falsy_def Let_def)

text \<open>
  Claim C10. With the decode library unavailable and no RIFF/WAVE signature,
  normalize returns nothing for every input of at most 1000 bytes; the fallback
  strategy itself returns nothing up to 1000 bytes; from 1001 bytes on (as long as
  the sizes fit the 32-bit header fields) normalize returns a 44-byte header followed
  by the input; and an input shorter than 100 bytes is rejected whatever the
  library would do with it.
\<close>

theorem convert_webm_to_wav_thresholds:
  "(\<not> SOUNDFILE_AVAILABLE sf
      \<and> \<not> (py_slice audio_bytes 0 4 = RIFF \<and> py_slice audio_bytes 8 12 = WAVE)
      \<and> length audio_bytes \<le> 1000
     \<longrightarrow> convert_webm_to_wav sf audio_bytes = None)
   \<and> (length audio_bytes \<le> 1000 \<longrightarrow> create_basic_wav_fallback audio_bytes = None)
   \<and> (\<not> SOUNDFILE_AVAILABLE sf
      \<and> \<not> (py_slice audio_bytes 0 4 = RIFF \<and> py_slice audio_bytes 8 12 = WAVE)
      \<and> 1000 < length audio_bytes \<and> 36 + int (length audio_bytes) < 2 ^ 32
     \<longrightarrow> (\<exists>h. length h = 44 \<and> convert_webm_to_wav sf audio_bytes = Some (h @ audio_bytes)))
   \<and> (length audio_bytes < 100 \<longrightarrow> convert_webm_to_wav sf audio_bytes = None)"
proof (intro conjI impI)
  assume a: "\<not> SOUNDFILE_AVAILABLE sf
      \<and> \<not> (py_slice audio_bytes 0 4 = RIFF \<and> py_slice audio_bytes 8 12 = WAVE)
      \<and> length audio_bytes \<le> 1000"
  then show "convert_webm_to_wav sf audio_bytes = None"
    by (auto simp add: convert_webm_to_wav_def try_soundfile_conversion_def falsy_def
        check_existing_wav_format_def create_basic_wav_fallback_def Let_def)
next
  assume "length audio_bytes \<le> 1000"
  then show "create_basic_wav_fallback audio_bytes = None"
    by (simp add: create_basic_wav_fallback_def)
next
  assume a: "\<not> SOUNDFILE_AVAILABLE sf
      \<and> \<not> (py_slice audio_bytes 0 4 = RIFF \<and> py_slice audio_bytes 8 12 = WAVE)
      \<and> 1000 < length audio_bytes \<and> 36 + int (length audio_bytes) < 2 ^ 32"
  then have len: "1000 < length audio_bytes" and "36 + int (length audio_bytes) < 2 ^ 32"
    by simp_all
  then obtain h where h: "create_basic_wav audio_bytes = Some (h @ audio_bytes)" "length h = 44"
    using create_basic_wav_some by blast
  have ne: "audio_bytes \<noteq> []" using len by auto
  have "convert_webm_to_wav sf audio_bytes = Some (h @ audio_bytes)"
    using a ne h
    by (auto simp add: convert_webm_to_wav_def try_soundfile_conversion_def falsy_def
        check_existing_wav_format_def create_basic_wav_fallback_def Let_def)
  with h(2) show "\<exists>h. length h = 44 \<and> convert_webm_to_wav sf audio_bytes = Some (h @ audio_bytes)"
    by blast
next
  assume "length audio_bytes < 100"
  then show "convert_webm_to_wav sf audio_bytes = None"
    by (simp add: convert_webm_to_wav_def)
qed

text \<open>
  The theorem of claim C10 at inputs of 1000, 1001 and 99 zero bytes.
\<close>

theorem convert_webm_to_wav_thresholds_witness:
  "convert_webm_to_wav \<lparr>SOUNDFILE_AVAILABLE = False, sf_read_write = Inr\<rparr> (replicate 1000 0) = None
   \<and> create_basic_wav_fallback (replicate 1000 0) = None
   \<and> (\<exists>h. length h = 44 \<and>
        convert_webm_to_wav \<lparr>SOUNDFILE_AVAILABLE = False, sf_read_write = Inr\<rparr> (replicate 1001 0)
          = Some (h @ replicate 1001 0))
   \<and> convert_webm_to_wav \<lparr>SOUNDFILE_AVAILABLE = True, sf_read_write = Inr\<rparr> (replicate 99 0) = None"
proof -
  let ?sf = "\<lparr>SOUNDFILE_AVAILABLE = False, sf_read_write = Inr\<rparr>"
  have m: "\<not> (py_slice (replicate n (0 :: byte)) 0 4 = RIFF \<and> py_slice (replicate n 0) 8 12 = WAVE)" for n
    by (cases n) (simp_all add: py_slice_def RIFF_def)
  show ?thesis
    using convert_webm_to_wav_thresholds [of ?sf "replicate 1000 0"]
      convert_webm_to_wav_thresholds [of ?sf "replicate 1001 0"]
      convert_webm_to_wav_thresholds [of "\<lparr>SOUNDFILE_AVAILABLE = True, sf_read_write = Inr\<rparr>" "replicate 99 0"]
      m [of 1000] m [of 1001]
    by simp
qed

section \<open>Properties of the silence detector\<close>

text \<open>
  Claim C9, as the code has it. \<^verbatim>\<open>detect_silence\<close> returns a boolean for every byte
  sequence and every threshold: whenever the path it takes raises, the handler answers
  \<open>False\<close>, and whenever that path returns, its answer is returned. On the fallback
  path (the decode library is unavailable) the only exception is the \<^verbatim>\<open>ValueError\<close>
  of \<^verbatim>\<open>np.frombuffer\<close>, raised exactly for the inputs of at least 1000 bytes with an
  odd byte count, and the answer for those is \<open>False\<close>.
\<close>

theorem detect_silence_total:
  "(\<forall>e. detect_silence_try soundfile_available sf_rms_below rms_below audio_bytes threshold = Inl e
        \<longrightarrow> detect_silence soundfile_available sf_rms_below rms_below audio_bytes threshold = False)
   \<and> (\<forall>silent. detect_silence_try soundfile_available sf_rms_below rms_below audio_bytes threshold
          = Inr silent
        \<longrightarrow> detect_silence soundfile_available sf_rms_below rms_below audio_bytes threshold = silent)
   \<and> (\<not> soundfile_available \<longrightarrow>
        (\<forall>e. detect_silence_try soundfile_available sf_rms_below rms_below audio_bytes threshold = Inl e
          \<longleftrightarrow> e = ValueError \<and> 1000 \<le> length audio_bytes \<and> odd (length audio_bytes)))
   \<and> (\<not> soundfile_available \<and> 1000 \<le> length audio_bytes \<and> odd (length audio_bytes)
        \<longrightarrow> detect_silence_fallback rms_below audio_bytes threshold = Inl ValueError
          \<and> detect_silence soundfile_available sf_rms_below rms_below audio_bytes threshold = False)"
  by (auto simp add: detect_silence_def detect_silence_try_def detect_silence_fallback_def
      np_frombuffer_int16_def)

text \<open>
  The theorem of claim C9 at 1001 zero bytes: on the fallback path, and with a library
  that answers or raises.
\<close>

theorem detect_silence_total_witness:
  "detect_silence_try False (\<lambda>b t. Inr True) (\<lambda>a t. True) (replicate 1001 0) (0 :: nat) = Inl ValueError
   \<and> detect_silence_fallback (\<lambda>a t. True) (replicate 1001 0) (0 :: nat) = Inl ValueError
   \<and> detect_silence False (\<lambda>b t. Inr True) (\<lambda>a t. True) (replicate 1001 0) (0 :: nat) = False
   \<and> detect_silence_try True (\<lambda>b t. Inr True) (\<lambda>a t. True) (replicate 1001 0) (0 :: nat) = Inr True
   \<and> detect_silence True (\<lambda>b t. Inr True) (\<lambda>a t. True) (replicate 1001 0) (0 :: nat) = True
   \<and> detect_silence_try True (\<lambda>b t. Inl WaveError) (\<lambda>a t. True) (replicate 1001 0) (0 :: nat)
       = Inl WaveError
   \<and> detect_silence True (\<lambda>b t. Inl WaveError) (\<lambda>a t. True) (replicate 1001 0) (0 :: nat) = False"
proof -
  have t: "detect_silence_try True (\<lambda>b t. Inr True) (\<lambda>a t. True) (replicate 1001 0) (0 :: nat) = Inr True"
    "detect_silence_try True (\<lambda>b t. Inl WaveError) (\<lambda>a t. True) (replicate 1001 0) (0 :: nat)
       = Inl WaveError"
    by (simp_all add: detect_silence_try_def detect_silence_with_soundfile_def)
  show ?thesis
    using detect_silence_total [of False "\<lambda>b t. Inr True" "\<lambda>a t. True" "replicate 1001 0" "0 :: nat"]
      detect_silence_total [of True "\<lambda>b t. Inr True" "\<lambda>a t. True" "replicate 1001 0" "0 :: nat"]
      detect_silence_total [of True "\<lambda>b t. Inl WaveError" "\<lambda>a t. True" "replicate 1001 0" "0 :: nat"]
      t
    by auto
qed

text \<open>
  Claim C9 as stated, for every input of at least 1000 bytes with an odd byte count,
  fails when the decode library is present: that path never looks at the parity of the
  byte count. Here the input is a canonical WAV file of 478 silent samples followed by
  one stray byte, 1001 bytes in all, which the library decodes and finds silent.
\<close>

theorem detect_silence_total_counterexample:
  "1000 \<le> length ([82, 73, 70, 70, 224, 3, 0, 0, 87, 65, 86, 69, 102, 109, 116, 32, 16, 0, 0, 0,
       1, 0, 1, 0, 68, 172, 0, 0, 136, 88, 1, 0, 2, 0, 16, 0,
       100, 97, 116, 97, 188, 3, 0, 0] @ replicate 957 (0 :: byte))
   \<and> odd (length ([82, 73, 70, 70, 224, 3, 0, 0, 87, 65, 86, 69, 102, 109, 116, 32, 16, 0, 0, 0,
       1, 0, 1, 0, 68, 172, 0, 0, 136, 88, 1, 0, 2, 0, 16, 0,
       100, 97, 116, 97, 188, 3, 0, 0] @ replicate 957 (0 :: byte)))
   \<and> detect_silence True (\<lambda>b t. Inr True) (np_rms_below sequential_order)
       ([82, 73, 70, 70, 224, 3, 0, 0, 87, 65, 86, 69, 102, 109, 116, 32, 16, 0, 0, 0,
       1, 0, 1, 0, 68, 172, 0, 0, 136, 88, 1, 0, 2, 0, 16, 0,
       100, 97, 116, 97, 188, 3, 0, 0] @ replicate 957 0) (1 / 10) = True"
  by (simp add: detect_silence_def detect_silence_try_def detect_silence_with_soundfile_def)

subsection \<open>The fallback path\<close>



























section \<open>Properties of the chunker\<close>

text \<open>
  Evaluations of the float arithmetic of \<^verbatim>\<open>split_audio\<close> for a file of 15 frames at
  44100 Hz: \<^verbatim>\<open>15 / 44100\<close> is the float \<open>6274402746159711 / 2\<^sup>6\<^sup>4\<close>, and that
  float times 44100 rounds to a float just below 15.
\<close>

lemma total_duration_15_frames: "py_truediv 15 44100 = Inr (6274402746159711 / 18446744073709551616)"
  by code_simp

lemma fl_44100: "fl 44100 = 44100"
  by code_simp

lemma fl_product_15: "fl (6274402746159711 / 18446744073709551616 * 44100)
    = 8444249301319679 / 562949953421312"
  by code_simp

lemma py_int_product_15: "py_int (PyFloat (8444249301319679 / 562949953421312)) = 14"
  by code_simp

lemma end_frame_15_frames: "end_frame (PyFloat (6274402746159711 / 18446744073709551616)) 44100 = 14"
proof -
  have "end_frame (PyFloat (6274402746159711 / 18446744073709551616)) 44100
      = py_int (PyFloat (fl (6274402746159711 / 18446744073709551616 * fl 44100)))"
    by (simp only: end_frame_def py_mul_int_def pynum.case of_nat_numeral of_int_numeral)
  then show ?thesis
    by (simp only: fl_44100 fl_product_15 py_int_product_15)
qed

lemma chunk_filename_1: "chunk_filename 1 = ''chunk_1.wav''"
  by (simp add: chunk_filename_def digit_char_def)

text \<open>
  Claim C1 fails on the code. A mono 16-bit file of 15 frames at 44100 Hz lasts
  \<open>D = 15 / 44100\<close> seconds, so one chunk must cover the frames \<open>[0, 15)\<close>. The code
  computes the end of the chunk as \<^verbatim>\<open>int(end_time * frame_rate)\<close>, which truncates
  \<open>14.999999999999998\<close> to 14 where rounding gives 15: the chunk written holds the first
  14 frames (28 bytes) and the last frame of the recording is in no chunk.
\<close>

theorem split_audio_loses_last_frame:
  "getnframes \<lparr>nchannels = 1, sampwidth = 2, framerate = 44100,
       data_chunk = [1, 2, 3, 4, 5, 6, 7, 8, 9, 10, 11, 12, 13, 14, 15, 16, 17, 18, 19, 20,
                     21, 22, 23, 24, 25, 26, 27, 28, 29, 30]\<rparr> = 15
   \<and> py_truediv 15 44100 = Inr (6274402746159711 / 18446744073709551616)
   \<and> end_frame (PyFloat (6274402746159711 / 18446744073709551616)) 44100 = 14
   \<and> (case split_audio
          \<lparr>files = [''in.wav'' \<mapsto> \<lparr>fsize = 74, wave = Some
               \<lparr>nchannels = 1, sampwidth = 2, framerate = 44100,
                data_chunk = [1, 2, 3, 4, 5, 6, 7, 8, 9, 10, 11, 12, 13, 14, 15, 16, 17, 18, 19, 20,
                     21, 22, 23, 24, 25, 26, 27, 28, 29, 30]\<rparr>\<rparr>],
            trace = []\<rparr> ''in.wav'' 30 of
        None \<Rightarrow> False
      | Some (chunks, w1) \<Rightarrow>
          chunks = [''chunk_1.wav'']
          \<and> map_option wave (files w1 ''chunk_1.wav'') = Some (Some
               \<lparr>nchannels = 1, sampwidth = 2, framerate = 44100,
                data_chunk = [1, 2, 3, 4, 5, 6, 7, 8, 9, 10, 11, 12, 13, 14, 15, 16, 17, 18, 19, 20,
                     21, 22, 23, 24, 25, 26, 27, 28]\<rparr>))"
proof -
  let ?data = "[1, 2, 3, 4, 5, 6, 7, 8, 9, 10, 11, 12, 13, 14, 15, 16, 17, 18, 19, 20,
                     21, 22, 23, 24, 25, 26, 27, 28, 29, 30] :: byte list"
  let ?audio = "\<lparr>nchannels = 1, sampwidth = 2, framerate = 44100, data_chunk = ?data\<rparr>"
  let ?td = "6274402746159711 / 18446744073709551616 :: rat"
  have n: "getnframes ?audio = 15"
    by (simp add: getnframes_def framesize_def)
  have lt0: "py_lt (PyInt 0) (PyFloat ?td)" and lt30: "\<not> py_lt (PyInt 30) (PyFloat ?td)"
    and mn: "py_min (PyInt 30) (PyFloat ?td) = PyFloat ?td"
    by (simp_all add: py_lt_def py_min_def py_value_def)
  have sf: "start_frame (PyInt 0) 44100 = 0"
    by (simp add: start_frame_def py_mul_int_def py_int_def)
  have c: "create_audio_chunk w ?audio (PyInt 0) (PyFloat ?td) 44100 1 =
      (Some ''chunk_1.wav'', w\<lparr>files := (files w)(''chunk_1.wav'' \<mapsto>
           \<lparr>fsize = 72, wave = Some \<lparr>nchannels = 1, sampwidth = 2, framerate = 44100,
                data_chunk = take 28 ?data\<rparr>\<rparr>)\<rparr>)" for w
    by (simp add: create_audio_chunk_def sf end_frame_15_frames setpos_def n readframes_def framesize_def
        wave_write_def chunk_filename_1 del: One_nat_def)
  have loop: "split_loop ?audio 44100 ?td 30 0 1 [] w =
      Some ([''chunk_1.wav''], w\<lparr>files := (files w)(''chunk_1.wav'' \<mapsto>
           \<lparr>fsize = 72, wave = Some \<lparr>nchannels = 1, sampwidth = 2, framerate = 44100,
                data_chunk = take 28 ?data\<rparr>\<rparr>)\<rparr>)" for w
    apply (subst split_loop.simps)
    apply (simp only: lt0 if_True add_0 mn c prod.case option.case append_Nil)
    apply (subst split_loop.simps)
    apply (simp add: lt30 del: One_nat_def)
    done
  have "split_audio \<lparr>files = [''in.wav'' \<mapsto> \<lparr>fsize = 74, wave = Some ?audio\<rparr>], trace = []\<rparr>
           ''in.wav'' 30 = Some ([''chunk_1.wav''],
       \<lparr>files = [''in.wav'' \<mapsto> \<lparr>fsize = 74, wave = Some ?audio\<rparr>,
                 ''chunk_1.wav'' \<mapsto> \<lparr>fsize = 72, wave = Some \<lparr>nchannels = 1, sampwidth = 2,
                     framerate = 44100, data_chunk = take 28 ?data\<rparr>\<rparr>],
        trace = [SplitAudio ''in.wav'']\<rparr>)"
    by (simp add: split_audio_def log_event_def wave_open_rb_def n total_duration_15_frames loop Let_def
        del: One_nat_def)
  then show ?thesis
    by (simp add: n total_duration_15_frames end_frame_15_frames del: One_nat_def)
qed

section \<open>Properties of the transcription call and the orchestrator\<close>

subsection \<open>Stripping\<close>

lemma rstrip_prefix: "\<exists>ws. s = rstrip s @ ws"
proof -
  have "rev s = takeWhile is_space (rev s) @ dropWhile is_space (rev s)" by simp
  then have "s = rev (dropWhile is_space (rev s)) @ rev (takeWhile is_space (rev s))"
    by (metis rev_append rev_rev_ident)
  then show ?thesis unfolding rstrip_def by blast
qed

lemma lstrip_head: "lstrip s \<noteq> [] \<Longrightarrow> \<not> is_space (hd (lstrip s))"
  unfolding lstrip_def by (rule hd_dropWhile)

lemma lstrip_id: "s = [] \<or> \<not> is_space (hd s) \<Longrightarrow> lstrip s = s"
  unfolding lstrip_def by (cases s) auto

lemma rstrip_idem: "rstrip (rstrip s) = rstrip s"
  unfolding rstrip_def by simp

lemma strip_Nil: "strip [] = []"
  by (simp add: strip_def lstrip_def rstrip_def)

lemma lstrip_rstrip_lstrip: "lstrip (rstrip (lstrip s)) = rstrip (lstrip s)"
proof (cases "rstrip (lstrip s) = []")
  case True
  then show ?thesis by (simp add: lstrip_def)
next
  case False
  obtain ws where ws: "lstrip s = rstrip (lstrip s) @ ws" using rstrip_prefix by blast
  with False have ne: "lstrip s \<noteq> []" by auto
  from ws False have "hd (rstrip (lstrip s)) = hd (lstrip s)"
    by (metis hd_append2)
  with lstrip_head [OF ne] have "\<not> is_space (hd (rstrip (lstrip s)))" by simp
  then show ?thesis by (simp add: lstrip_id)
qed

lemma strip_strip: "strip (strip s) = strip s"
  by (simp add: strip_def lstrip_rstrip_lstrip rstrip_idem)

lemma stripped_lstrip: "strip t = t \<Longrightarrow> lstrip t = t"
proof -
  assume "strip t = t"
  then have "lstrip (rstrip (lstrip t)) = lstrip t" by (simp add: strip_def)
  then have "rstrip (lstrip t) = lstrip t" by (simp add: lstrip_rstrip_lstrip)
  with \<open>strip t = t\<close> show "lstrip t = t" by (simp add: strip_def)
qed

lemma stripped_head: "strip t = t \<Longrightarrow> t \<noteq> [] \<Longrightarrow> \<not> is_space (hd t)"
  using lstrip_head [of t] stripped_lstrip [of t] by simp

lemma lstrip_joined:
  assumes "\<forall>t\<in>set ts. strip t = t"
  shows "lstrip (concat (map (\<lambda>t. t @ [32]) (filter (\<lambda>t. t \<noteq> []) ts)))
       = concat (map (\<lambda>t. t @ [32]) (filter (\<lambda>t. t \<noteq> []) ts))"
proof (cases "filter (\<lambda>t. t \<noteq> []) ts")
  case Nil
  then show ?thesis by (simp add: lstrip_def)
next
  case (Cons t rest)
  then have "t \<in> set (filter (\<lambda>t. t \<noteq> []) ts)" by simp
  then have "t \<in> set ts" and "t \<noteq> []" by simp_all
  with assms have "\<not> is_space (hd t)" by (simp add: stripped_head)
  with \<open>t \<noteq> []\<close> Cons show ?thesis by (simp add: lstrip_id)
qed

lemma strip_joined:
  assumes "\<forall>t\<in>set ts. strip t = t"
  shows "strip (concat (map (\<lambda>t. t @ [32]) (filter (\<lambda>t. t \<noteq> []) ts)))
       = rstrip (concat (map (\<lambda>t. t @ [32]) (filter (\<lambda>t. t \<noteq> []) ts)))"
  by (simp add: strip_def lstrip_joined [OF assms])

subsection \<open>The transcription call returns stripped text\<close>

lemma extract_top_level_stripped:
  "extract_top_level payload keys = Inr (Some t) \<Longrightarrow> strip t = t"
  by (induction keys)
     (auto simp: strip_strip split: sum.splits bool.splits json.splits)

lemma extract_nested_stripped:
  "extract_nested py_repr result keys = Inr (Some t) \<Longrightarrow> strip t = t"
  by (induction keys)
     (auto simp: strip_strip split: sum.splits bool.splits)

lemma extract_transcript_stripped:
  "extract_transcript_from_response py_repr payload = Inr t \<Longrightarrow> strip t = t"
  unfolding extract_transcript_from_response_def
  by (auto simp: strip_Nil simp del: extract_top_level.simps extract_nested.simps
      split: sum.splits option.splits bool.splits if_splits
      dest: extract_top_level_stripped extract_nested_stripped)

lemma audio_to_text_result_stripped:
  "strip (audio_to_text_result ev w p) = audio_to_text_result ev w p"
  unfolding audio_to_text_result_def audio_to_text_try_def
  by (auto simp: strip_Nil split: sum.splits option.splits if_splits
      dest: extract_transcript_stripped)


subsection \<open>Clean-up and the chunk loop\<close>

lemma audio_to_text_world:
  "snd (audio_to_text ev w p) = log_event (AudioToText p (audio_to_text_result ev w p)) w"
  "fst (audio_to_text ev w p) = audio_to_text_result ev w p"
  by (simp_all add: audio_to_text_def Let_def)

lemma cleanup_temp_file_trace:
  "trace (cleanup_temp_file w p) = trace w @ [CleanupTempFile p]"
  by (simp add: cleanup_temp_file_def os_remove_def log_event_def Let_def split: option.splits)

lemma cleanup_temp_file_files:
  "files (cleanup_temp_file w p) = (files w)(p := None)"
  by (auto simp add: cleanup_temp_file_def os_remove_def log_event_def Let_def fun_eq_iff
      split: option.splits)

lemma chunk_loop_spec:
  "\<exists>ts. length ts = length chunks
     \<and> (\<forall>t\<in>set ts. strip t = t)
     \<and> fst (chunk_loop ev chunks acc w)
         = acc @ concat (map (\<lambda>t. t @ [32]) (filter (\<lambda>t. t \<noteq> []) ts))
     \<and> trace (snd (chunk_loop ev chunks acc w))
         = trace w @ concat (map (\<lambda>(c, t). [AudioToText c t, CleanupTempFile c]) (zip chunks ts))
     \<and> (\<forall>p. p \<in> set chunks \<or> files w p = None
           \<longrightarrow> files (snd (chunk_loop ev chunks acc w)) p = None)"
proof (induction chunks arbitrary: acc w)
  case Nil
  then show ?case by simp
next
  case (Cons chunk chunks)
  let ?t = "audio_to_text_result ev w chunk"
  let ?w1 = "log_event (AudioToText chunk ?t) w"
  let ?w2 = "cleanup_temp_file ?w1 chunk"
  let ?acc = "if ?t \<noteq> [] then acc @ ?t @ [32] else acc"
  have step: "chunk_loop ev (chunk # chunks) acc w = chunk_loop ev chunks ?acc ?w2"
    by (simp add: audio_to_text_def Let_def)
  from Cons.IH [of ?acc ?w2] obtain ts where ts:
    "length ts = length chunks" "\<forall>t\<in>set ts. strip t = t"
    "fst (chunk_loop ev chunks ?acc ?w2)
       = ?acc @ concat (map (\<lambda>t. t @ [32]) (filter (\<lambda>t. t \<noteq> []) ts))"
    "trace (snd (chunk_loop ev chunks ?acc ?w2))
       = trace ?w2 @ concat (map (\<lambda>(c, t). [AudioToText c t, CleanupTempFile c]) (zip chunks ts))"
    "\<forall>p. p \<in> set chunks \<or> files ?w2 p = None
           \<longrightarrow> files (snd (chunk_loop ev chunks ?acc ?w2)) p = None"
    by blast
  have tr: "trace ?w2 = trace w @ [AudioToText chunk ?t, CleanupTempFile chunk]"
    by (simp add: cleanup_temp_file_trace log_event_def)
  have fl: "files ?w2 = (files w)(chunk := None)"
    by (simp add: cleanup_temp_file_files log_event_def)
  show ?case
  proof (intro exI [of _ "?t # ts"] conjI)
    show "length (?t # ts) = length (chunk # chunks)" using ts(1) by simp
    show "\<forall>t\<in>set (?t # ts). strip t = t"
      using ts(2) by (simp add: audio_to_text_result_stripped)
    show "fst (chunk_loop ev (chunk # chunks) acc w)
        = acc @ concat (map (\<lambda>t. t @ [32]) (filter (\<lambda>t. t \<noteq> []) (?t # ts)))"
      unfolding step ts(3) by simp
    show "trace (snd (chunk_loop ev (chunk # chunks) acc w))
        = trace w @ concat (map (\<lambda>(c, t). [AudioToText c t, CleanupTempFile c])
            (zip (chunk # chunks) (?t # ts)))"
      unfolding step ts(4) tr by simp
    show "\<forall>p. p \<in> set (chunk # chunks) \<or> files w p = None
           \<longrightarrow> files (snd (chunk_loop ev (chunk # chunks) acc w)) p = None"
      unfolding step using ts(5) by (simp add: fl)
  qed
qed

subsection \<open>The chunker returns\<close>

lemma create_audio_chunk_trace:
  "trace (snd (create_audio_chunk w audio start_time end_time frame_rate index)) = trace w"
  by (simp add: create_audio_chunk_def wave_write_def split: sum.splits prod.splits if_splits)

lemma split_loop_returns:
  assumes "0 < chunk_length"
  shows "\<exists>chunks' w'. split_loop audio frame_rate total_duration chunk_length start_time index
            chunks w = Some (chunks', w') \<and> trace w' = trace w"
  using assms
proof (induction "nat (\<lceil>total_duration\<rceil> - start_time)" arbitrary: start_time index chunks w
    rule: less_induct)
  case less
  show ?case
  proof (cases "py_lt (PyInt start_time) (PyFloat total_duration)")
    case False
    then show ?thesis by (subst split_loop.simps) simp
  next
    case True
    then have "of_int start_time < total_duration" by (simp add: py_lt_def py_value_def)
    then have lt: "start_time < \<lceil>total_duration\<rceil>" by (simp add: less_ceiling_iff)
    obtain chunk w1 where c: "create_audio_chunk w audio (PyInt start_time)
        (py_min (PyInt (start_time + chunk_length)) (PyFloat total_duration)) frame_rate index
        = (chunk, w1)"
      by (cases "create_audio_chunk w audio (PyInt start_time)
        (py_min (PyInt (start_time + chunk_length)) (PyFloat total_duration)) frame_rate index")
    then have w1: "trace w1 = trace w"
      using create_audio_chunk_trace [of w audio "PyInt start_time"
          "py_min (PyInt (start_time + chunk_length)) (PyFloat total_duration)" frame_rate index]
      by simp
    have "nat (\<lceil>total_duration\<rceil> - (start_time + chunk_length))
        < nat (\<lceil>total_duration\<rceil> - start_time)"
      using lt less.prems by linarith
    from less.hyps [OF this less.prems] obtain chunks' w' where
      "split_loop audio frame_rate total_duration chunk_length (start_time + chunk_length)
         (index + 1) (case chunk of None \<Rightarrow> chunks | Some name \<Rightarrow> chunks @ [name]) w1
         = Some (chunks', w')" "trace w' = trace w1"
      by blast
    with True c w1 show ?thesis
      by (subst split_loop.simps) simp
  qed
qed

lemma split_audio_returns:
  assumes "0 < chunk_length"
  shows "\<exists>chunks w1. split_audio w input_file chunk_length = Some (chunks, w1)
          \<and> trace w1 = trace w @ [SplitAudio input_file]"
proof -
  let ?w0 = "log_event (SplitAudio input_file) w"
  have t0: "trace ?w0 = trace w @ [SplitAudio input_file]" by (simp add: log_event_def)
  show ?thesis
  proof (cases "wave_open_rb ?w0 input_file")
    case (Inl e)
    then show ?thesis by (simp add: split_audio_def Let_def t0)
  next
    case (Inr audio)
    show ?thesis
    proof (cases "py_truediv (int (getnframes audio)) (int (framerate audio))")
      case (Inl e)
      with Inr show ?thesis by (simp add: split_audio_def Let_def t0)
    next
      case (Inr total_duration)
      from split_loop_returns [OF assms, of audio "framerate audio" total_duration 0 1 "[]" ?w0]
      obtain chunks' w' where "split_loop audio (framerate audio) total_duration chunk_length
          0 1 [] ?w0 = Some (chunks', w')" "trace w' = trace ?w0"
        by blast
      with Inr \<open>wave_open_rb ?w0 input_file = Inr audio\<close> show ?thesis
        by (simp add: split_audio_def Let_def t0)
    qed
  qed
qed

subsection \<open>The orchestrator\<close>

text \<open>
  Claim C7. For every file path that does not exist or names a zero-length file,
  \<^verbatim>\<open>process_long_audio\<close> returns the empty string and leaves the world as it was:
  no file is written and the trace is unchanged, so neither the chunker nor the
  transcription call was invoked. This holds for every environment.
\<close>

theorem process_long_audio_invalid_file:
  assumes "files w input_file = None \<or> (\<exists>f. files w input_file = Some f \<and> fsize f = 0)"
  shows "process_long_audio ev w input_file = Some ([], w)"
  using assms
  by (auto simp add: process_long_audio_def process_long_audio_try_def)

text \<open>
  The theorem of claim C7 at a missing file and at an empty file.
\<close>

theorem process_long_audio_invalid_file_witness:
  "process_long_audio
      \<lparr>api_utils_importable = True, SARVAM_API_KEY = Some ''key'',
       requests_post = (\<lambda>n p f. Inr (Response 200 (Some (JStr (ustr_of ''hello''))))),
       python_repr = (\<lambda>v. [])\<rparr>
      \<lparr>files = Map.empty, trace = []\<rparr> ''missing.wav''
     = Some ([], \<lparr>files = Map.empty, trace = []\<rparr>)
   \<and> process_long_audio
      \<lparr>api_utils_importable = True, SARVAM_API_KEY = Some ''key'',
       requests_post = (\<lambda>n p f. Inr (Response 200 (Some (JStr (ustr_of ''hello''))))),
       python_repr = (\<lambda>v. [])\<rparr>
      \<lparr>files = [''empty.wav'' \<mapsto> \<lparr>fsize = 0, wave = None\<rparr>], trace = []\<rparr> ''empty.wav''
     = Some ([], \<lparr>files = [''empty.wav'' \<mapsto> \<lparr>fsize = 0, wave = None\<rparr>], trace = []\<rparr>)"
  by (intro conjI process_long_audio_invalid_file) simp_all

text \<open>
  Claim C5. For every input file path \<^verbatim>\<open>process_long_audio\<close> returns a string: the
  chunker called with 30 seconds always returns, and whenever an exception leaves the
  \<^verbatim>\<open>try\<close> block the handler returns the empty string.
\<close>

theorem process_long_audio_never_raises:
  "(\<exists>transcript w'. process_long_audio ev w input_file = Some (transcript, w'))
   \<and> (\<forall>e w'. process_long_audio_try ev w input_file = Some (Inl e, w')
         \<longrightarrow> process_long_audio ev w input_file = Some ([], w'))"
proof
  obtain chunks w1 where "split_audio w input_file 30 = Some (chunks, w1)"
    using split_audio_returns [of 30 w input_file] by auto
  then have "\<exists>r w'. process_long_audio_try ev w input_file = Some (r, w')"
    by (auto simp add: process_long_audio_try_def split: option.splits prod.splits)
  then obtain r w' where "process_long_audio_try ev w input_file = Some (r, w')" by blast
  then show "\<exists>transcript w'. process_long_audio ev w input_file = Some (transcript, w')"
    by (cases r) (simp_all add: process_long_audio_def)
next
  show "\<forall>e w'. process_long_audio_try ev w input_file = Some (Inl e, w')
         \<longrightarrow> process_long_audio ev w input_file = Some ([], w')"
    by (simp add: process_long_audio_def)
qed

text \<open>
  The theorem of claim C5 where the import of \<^verbatim>\<open>.api_utils\<close> fails.
\<close>

theorem process_long_audio_never_raises_witness:
  "process_long_audio_try
      \<lparr>api_utils_importable = False, SARVAM_API_KEY = None,
       requests_post = (\<lambda>n p f. Inl RequestException), python_repr = (\<lambda>v. [])\<rparr>
      \<lparr>files = [''rec.wav'' \<mapsto> \<lparr>fsize = 10, wave = None\<rparr>], trace = []\<rparr> ''rec.wav''
     = Some (Inl ImportError, \<lparr>files = [''rec.wav'' \<mapsto> \<lparr>fsize = 10, wave = None\<rparr>], trace = []\<rparr>)
   \<and> process_long_audio
      \<lparr>api_utils_importable = False, SARVAM_API_KEY = None,
       requests_post = (\<lambda>n p f. Inl RequestException), python_repr = (\<lambda>v. [])\<rparr>
      \<lparr>files = [''rec.wav'' \<mapsto> \<lparr>fsize = 10, wave = None\<rparr>], trace = []\<rparr> ''rec.wav''
     = Some ([], \<lparr>files = [''rec.wav'' \<mapsto> \<lparr>fsize = 10, wave = None\<rparr>], trace = []\<rparr>)"
proof -
  let ?ev = "\<lparr>api_utils_importable = False, SARVAM_API_KEY = None,
       requests_post = (\<lambda>n p f. Inl RequestException), python_repr = (\<lambda>v. [])\<rparr>"
  let ?w = "\<lparr>files = [''rec.wav'' \<mapsto> \<lparr>fsize = 10, wave = None\<rparr>], trace = []\<rparr>"
  have t: "process_long_audio_try ?ev ?w ''rec.wav'' = Some (Inl ImportError, ?w)"
    by (simp add: process_long_audio_try_def)
  with process_long_audio_never_raises [of ?ev ?w "''rec.wav''"] show ?thesis by blast
qed

subsection \<open>The scenario, evaluated\<close>

text \<open>
  The chunker on the 75-second recording writes three chunks of 60, 60 and 30 frames;
  the orchestrator then returns \<open>"hello world"\<close>. On the file that is not WAV audio the
  chunker returns no chunk.
\<close>

lemma py_truediv_150_2: "py_truediv 150 2 = Inr 75"
  by code_simp

lemma fl_2: "fl 2 = 2"
  by code_simp

lemma fl_150: "fl 150 = 150"
  by code_simp

lemma py_int_150: "py_int (PyFloat 150) = 150"
  by code_simp

lemma end_frame_75: "end_frame (PyFloat 75) 2 = 150"
proof -
  have "end_frame (PyFloat 75) 2 = py_int (PyFloat (fl (75 * fl 2)))"
    by (simp only: end_frame_def py_mul_int_def pynum.case of_nat_numeral of_int_numeral)
  also have "\<dots> = py_int (PyFloat (fl 150))" by (simp add: fl_2)
  finally show ?thesis by (simp only: fl_150 py_int_150)
qed

lemma chunk_filenames:
  "chunk_filename 1 = ''chunk_1.wav''" "chunk_filename 2 = ''chunk_2.wav''"
  "chunk_filename 3 = ''chunk_3.wav''"
  by (simp_all add: chunk_filename_def digit_char_def)

lemma split_audio_75_seconds:
  "split_audio recording_75 ''rec.wav'' 30
   = Some ([''chunk_1.wav'', ''chunk_2.wav'', ''chunk_3.wav''],
     \<lparr>files = [''rec.wav'' \<mapsto> \<lparr>fsize = 644, wave = Some
         \<lparr>nchannels = 2, sampwidth = 2, framerate = 2, data_chunk = replicate 600 0\<rparr>\<rparr>,
        ''chunk_1.wav'' \<mapsto> \<lparr>fsize = 284, wave = Some
         \<lparr>nchannels = 2, sampwidth = 2, framerate = 2, data_chunk = replicate 240 0\<rparr>\<rparr>,
        ''chunk_2.wav'' \<mapsto> \<lparr>fsize = 284, wave = Some
         \<lparr>nchannels = 2, sampwidth = 2, framerate = 2, data_chunk = replicate 240 0\<rparr>\<rparr>,
        ''chunk_3.wav'' \<mapsto> \<lparr>fsize = 164, wave = Some
         \<lparr>nchannels = 2, sampwidth = 2, framerate = 2, data_chunk = replicate 120 0\<rparr>\<rparr>],
      trace = [SplitAudio ''rec.wav'']\<rparr>)"
proof -
  let ?audio = "\<lparr>nchannels = 2, sampwidth = 2, framerate = 2, data_chunk = replicate 600 (0 :: byte)\<rparr>"
  have n: "getnframes ?audio = 150"
    by (simp add: getnframes_def framesize_def)
  have lt: "py_lt (PyInt 0) (PyFloat 75)" "py_lt (PyInt 30) (PyFloat 75)"
    "py_lt (PyInt 60) (PyFloat 75)" "\<not> py_lt (PyInt 90) (PyFloat 75)"
    and mn: "py_min (PyInt 30) (PyFloat 75) = PyInt 30" "py_min (PyInt 60) (PyFloat 75) = PyInt 60"
    "py_min (PyInt 90) (PyFloat 75) = PyFloat 75"
    by (simp_all add: py_lt_def py_min_def py_value_def)
  have fr: "start_frame (PyInt 0) 2 = 0" "start_frame (PyInt 30) 2 = 60"
    "start_frame (PyInt 60) 2 = 120" "end_frame (PyInt 30) 2 = 60" "end_frame (PyInt 60) 2 = 120"
    by (simp_all add: start_frame_def end_frame_def py_mul_int_def py_int_def)
  have c1: "create_audio_chunk w ?audio (PyInt 0) (PyInt 30) 2 1 =
      (Some ''chunk_1.wav'', w\<lparr>files := (files w)(''chunk_1.wav'' \<mapsto>
           \<lparr>fsize = 284, wave = Some \<lparr>nchannels = 2, sampwidth = 2, framerate = 2,
                data_chunk = replicate 240 0\<rparr>\<rparr>)\<rparr>)" for w
    by (simp add: create_audio_chunk_def fr setpos_def n readframes_def framesize_def
        wave_write_def chunk_filenames del: One_nat_def)
  have c2: "create_audio_chunk w ?audio (PyInt 30) (PyInt 60) 2 2 =
      (Some ''chunk_2.wav'', w\<lparr>files := (files w)(''chunk_2.wav'' \<mapsto>
           \<lparr>fsize = 284, wave = Some \<lparr>nchannels = 2, sampwidth = 2, framerate = 2,
                data_chunk = replicate 240 0\<rparr>\<rparr>)\<rparr>)" for w
    by (simp add: create_audio_chunk_def fr setpos_def n readframes_def framesize_def
        wave_write_def chunk_filenames del: One_nat_def)
  have c3: "create_audio_chunk w ?audio (PyInt 60) (PyFloat 75) 2 3 =
      (Some ''chunk_3.wav'', w\<lparr>files := (files w)(''chunk_3.wav'' \<mapsto>
           \<lparr>fsize = 164, wave = Some \<lparr>nchannels = 2, sampwidth = 2, framerate = 2,
                data_chunk = replicate 120 0\<rparr>\<rparr>)\<rparr>)" for w
    by (simp add: create_audio_chunk_def fr end_frame_75 setpos_def n readframes_def framesize_def
        wave_write_def chunk_filenames del: One_nat_def)
  have l4: "split_loop ?audio 2 75 30 90 4 cs w = Some (cs, w)" for cs w
    by (subst split_loop.simps) (simp add: lt)
  have l3: "split_loop ?audio 2 75 30 60 3 cs w = Some (cs @ [''chunk_3.wav''],
        w\<lparr>files := (files w)(''chunk_3.wav'' \<mapsto>
           \<lparr>fsize = 164, wave = Some \<lparr>nchannels = 2, sampwidth = 2, framerate = 2,
                data_chunk = replicate 120 0\<rparr>\<rparr>)\<rparr>)" for cs w
    by (subst split_loop.simps) (simp add: lt mn c3 l4)
  have l2: "split_loop ?audio 2 75 30 30 2 cs w = Some (cs @ [''chunk_2.wav'', ''chunk_3.wav''],
        w\<lparr>files := (files w)(''chunk_2.wav'' \<mapsto>
           \<lparr>fsize = 284, wave = Some \<lparr>nchannels = 2, sampwidth = 2, framerate = 2,
                data_chunk = replicate 240 0\<rparr>\<rparr>,
          ''chunk_3.wav'' \<mapsto>
           \<lparr>fsize = 164, wave = Some \<lparr>nchannels = 2, sampwidth = 2, framerate = 2,
                data_chunk = replicate 120 0\<rparr>\<rparr>)\<rparr>)" for cs w
    by (subst split_loop.simps) (simp add: lt mn c2 l3)
  have l1: "split_loop ?audio 2 75 30 0 1 [] w = Some ([''chunk_1.wav'', ''chunk_2.wav'', ''chunk_3.wav''],
        w\<lparr>files := (files w)(''chunk_1.wav'' \<mapsto>
           \<lparr>fsize = 284, wave = Some \<lparr>nchannels = 2, sampwidth = 2, framerate = 2,
                data_chunk = replicate 240 0\<rparr>\<rparr>,
          ''chunk_2.wav'' \<mapsto>
           \<lparr>fsize = 284, wave = Some \<lparr>nchannels = 2, sampwidth = 2, framerate = 2,
                data_chunk = replicate 240 0\<rparr>\<rparr>,
          ''chunk_3.wav'' \<mapsto>
           \<lparr>fsize = 164, wave = Some \<lparr>nchannels = 2, sampwidth = 2, framerate = 2,
                data_chunk = replicate 120 0\<rparr>\<rparr>)\<rparr>)" for w
    apply (subst split_loop.simps)
    apply (simp only: lt if_True add_0 mn c1 prod.case option.case append_Nil)
    apply (simp add: l2 del: One_nat_def)
    done
  show ?thesis
    by (simp add: recording_75_def split_audio_def log_event_def wave_open_rb_def n
        py_truediv_150_2 l1 Let_def del: One_nat_def)
qed

lemma process_long_audio_75_seconds:
  "(case process_long_audio service_75 recording_75 ''rec.wav'' of
     None \<Rightarrow> False
   | Some (transcript, w2) \<Rightarrow>
       transcript = ustr_of ''hello world''
       \<and> trace w2 = [SplitAudio ''rec.wav'',
            AudioToText ''chunk_1.wav'' (ustr_of ''hello''), CleanupTempFile ''chunk_1.wav'',
            AudioToText ''chunk_2.wav'' [], CleanupTempFile ''chunk_2.wav'',
            AudioToText ''chunk_3.wav'' (ustr_of ''world''), CleanupTempFile ''chunk_3.wav''])"
proof -
  have ev: "api_utils_importable service_75" "SARVAM_API_KEY service_75 = Some ''key''"
    by (simp_all add: service_75_def)
  have f: "files recording_75 ''rec.wav'' = Some \<lparr>fsize = 644, wave = Some
         \<lparr>nchannels = 2, sampwidth = 2, framerate = 2, data_chunk = replicate 600 0\<rparr>\<rparr>"
    by (simp add: recording_75_def)
  have p1: "requests_post service_75 n ''chunk_1.wav'' g
      = Inr (Response 200 (Some (JDict [(ustr_of ''text'', JStr (ustr_of '' hello ''))])))"
    and p2: "requests_post service_75 n ''chunk_2.wav'' g = Inr (Response 500 None)"
    and p3: "requests_post service_75 n ''chunk_3.wav'' g
      = Inr (Response 200 (Some (JDict [(ustr_of ''result'',
                 JDict [(ustr_of ''transcript'', JStr (ustr_of ''world''))])])))" for n g
    by (simp_all add: service_75_def)
  have x1: "extract_transcript_from_response r
        (JDict [(ustr_of ''text'', JStr (ustr_of '' hello ''))]) = Inr (ustr_of ''hello'')" for r
    by (simp add: extract_transcript_from_response_def py_contains_def py_getitem_def
        ustr_of_def strip_def lstrip_def rstrip_def is_space_def)
  have x3: "extract_transcript_from_response r
        (JDict [(ustr_of ''result'', JDict [(ustr_of ''transcript'', JStr (ustr_of ''world''))])])
      = Inr (ustr_of ''world'')" for r
    by (simp add: extract_transcript_from_response_def py_contains_def py_getitem_def py_str_def
        is_dict_def ustr_of_def strip_def lstrip_def rstrip_def is_space_def)
  have s: "strip (ustr_of ''hello'' @ 32 # ustr_of ''world'' @ [32]) = ustr_of ''hello world''"
    by (simp add: ustr_of_def strip_def lstrip_def rstrip_def is_space_def)
  have ne: "ustr_of ''hello'' \<noteq> []" "ustr_of ''world'' \<noteq> []"
    by (simp_all add: ustr_of_def)
  show ?thesis
    by (simp add: process_long_audio_def process_long_audio_try_def ev f split_audio_75_seconds
        audio_to_text_def audio_to_text_result_def audio_to_text_try_def p1 p2 p3 x1 x3 s ne
        cleanup_temp_file_def os_remove_def log_event_def Let_def)
qed

lemma split_audio_upload_note:
  "split_audio upload_note ''note.bin'' 30
     = Some ([], upload_note\<lparr>trace := [SplitAudio ''note.bin'']\<rparr>)"
  by (simp add: upload_note_def split_audio_def log_event_def wave_open_rb_def Let_def)

subsection \<open>Whole-file fallback and chunked transcription\<close>

text \<open>
  Claim C6. When the input file exists and is not empty, and the chunker returns
  no chunk, \<^verbatim>\<open>process_long_audio\<close> makes one transcription call, on the original
  input file, and returns the text of that call as it is: after the chunker's entry
  the trace holds exactly that one call.
\<close>

theorem process_long_audio_whole_file:
  assumes "api_utils_importable ev" and "files w input_file = Some f" and "0 < fsize f"
    and "split_audio w input_file 30 = Some ([], w1)"
  shows "\<exists>transcript w2.
           process_long_audio ev w input_file = Some (transcript, w2)
         \<and> audio_to_text ev w1 input_file = (transcript, w2)
         \<and> trace w2 = trace w @ [SplitAudio input_file, AudioToText input_file transcript]"
proof -
  let ?t = "audio_to_text_result ev w1 input_file"
  let ?w2 = "log_event (AudioToText input_file ?t) w1"
  have a: "audio_to_text ev w1 input_file = (?t, ?w2)"
    by (simp add: audio_to_text_def Let_def)
  have s: "(if ?t \<noteq> [] then strip ?t else []) = ?t"
    by (simp add: audio_to_text_result_stripped)
  from split_audio_returns [of 30 w input_file] assms(4)
  have "trace w1 = trace w @ [SplitAudio input_file]" by auto
  then have t: "trace ?w2 = trace w @ [SplitAudio input_file, AudioToText input_file ?t]"
    by (simp add: log_event_def)
  have "process_long_audio ev w input_file = Some (?t, ?w2)"
    using assms by (simp add: process_long_audio_def process_long_audio_try_def a s)
  with a t show ?thesis by blast
qed

text \<open>
  The theorem of claim C6 on the file that is not WAV audio.
\<close>

theorem process_long_audio_whole_file_witness:
  "\<exists>w2. process_long_audio service_75 upload_note ''note.bin'' = Some (ustr_of ''world'', w2)
     \<and> trace w2 = [SplitAudio ''note.bin'', AudioToText ''note.bin'' (ustr_of ''world'')]"
proof -
  have "api_utils_importable service_75" by (simp add: service_75_def)
  moreover have "files upload_note ''note.bin'' = Some \<lparr>fsize = 10, wave = None\<rparr>"
    by (simp add: upload_note_def)
  moreover have "0 < fsize \<lparr>fsize = 10, wave = None\<rparr>" by simp
  moreover note split_audio_upload_note
  ultimately obtain transcript w2 where r:
    "process_long_audio service_75 upload_note ''note.bin'' = Some (transcript, w2)"
    "audio_to_text service_75 (upload_note\<lparr>trace := [SplitAudio ''note.bin'']\<rparr>) ''note.bin''
       = (transcript, w2)"
    "trace w2 = trace upload_note @ [SplitAudio ''note.bin'', AudioToText ''note.bin'' transcript]"
    using process_long_audio_whole_file by blast
  have "fst (audio_to_text service_75 (upload_note\<lparr>trace := [SplitAudio ''note.bin'']\<rparr>)
      ''note.bin'') = ustr_of ''world''"
    by (simp add: audio_to_text_def audio_to_text_result_def audio_to_text_try_def
        service_75_def upload_note_def extract_transcript_from_response_def py_contains_def
        py_getitem_def py_str_def is_dict_def ustr_of_def strip_def lstrip_def rstrip_def
        is_space_def Let_def)
  with r(2) have "transcript = ustr_of ''world''" by simp
  with r(1,3) show ?thesis by (simp add: upload_note_def)
qed

text \<open>
  Claim C4. When the chunker returns the chunks \<open>c\<^sub>1 \<dots> c\<^sub>n\<close> (\<open>n > 0\<close>), there are
  per-chunk transcripts \<open>t\<^sub>1 \<dots> t\<^sub>n\<close> such that the final transcript is the
  concatenation in chunk order of every non-empty \<open>t\<^sub>i\<close> followed by one space, with
  trailing whitespace removed; the trace after the chunker is, chunk by chunk and in
  order, one transcription call returning \<open>t\<^sub>i\<close> followed by the clean-up of that chunk
  (no reordering, no second attempt); and no chunk file exists at the end.
\<close>

theorem process_long_audio_chunks:
  assumes "api_utils_importable ev" and "files w input_file = Some f" and "0 < fsize f"
    and "split_audio w input_file 30 = Some (chunks, w1)" and "chunks \<noteq> []"
  shows "\<exists>ts w2.
           process_long_audio ev w input_file
             = Some (rstrip (concat (map (\<lambda>t. t @ [32]) (filter (\<lambda>t. t \<noteq> []) ts))), w2)
         \<and> length ts = length chunks
         \<and> trace w2 = trace w1
             @ concat (map (\<lambda>(c, t). [AudioToText c t, CleanupTempFile c]) (zip chunks ts))
         \<and> (\<forall>c\<in>set chunks. files w2 c = None)"
proof -
  from chunk_loop_spec [of chunks ev "[]" w1] obtain ts where ts:
    "length ts = length chunks" "\<forall>t\<in>set ts. strip t = t"
    "fst (chunk_loop ev chunks [] w1)
       = concat (map (\<lambda>t. t @ [32]) (filter (\<lambda>t. t \<noteq> []) ts))"
    "trace (snd (chunk_loop ev chunks [] w1))
       = trace w1 @ concat (map (\<lambda>(c, t). [AudioToText c t, CleanupTempFile c]) (zip chunks ts))"
    "\<forall>p. p \<in> set chunks \<or> files w1 p = None
           \<longrightarrow> files (snd (chunk_loop ev chunks [] w1)) p = None"
    by auto
  let ?w2 = "snd (chunk_loop ev chunks [] w1)"
  have "process_long_audio ev w input_file
      = Some (strip (fst (chunk_loop ev chunks [] w1)), ?w2)"
    using assms
    by (simp add: process_long_audio_def process_long_audio_try_def split: prod.splits)
  then have "process_long_audio ev w input_file
      = Some (rstrip (concat (map (\<lambda>t. t @ [32]) (filter (\<lambda>t. t \<noteq> []) ts))), ?w2)"
    by (simp add: ts(3) strip_joined [OF ts(2)])
  with ts(1,4,5) show ?thesis by blast
qed

text \<open>
  The theorem of claim C4 on the 75-second scenario: three chunks, the second
  transcription fails, the result is \<open>"hello world"\<close>.
\<close>

theorem process_long_audio_chunks_witness:
  "\<exists>ts w2.
      process_long_audio service_75 recording_75 ''rec.wav'' = Some (ustr_of ''hello world'', w2)
    \<and> ustr_of ''hello world''
        = rstrip (concat (map (\<lambda>t. t @ [32]) (filter (\<lambda>t. t \<noteq> []) ts)))
    \<and> length ts = 3
    \<and> trace w2 = [SplitAudio ''rec.wav'',
            AudioToText ''chunk_1.wav'' (ustr_of ''hello''), CleanupTempFile ''chunk_1.wav'',
            AudioToText ''chunk_2.wav'' [], CleanupTempFile ''chunk_2.wav'',
            AudioToText ''chunk_3.wav'' (ustr_of ''world''), CleanupTempFile ''chunk_3.wav'']
    \<and> files w2 ''chunk_1.wav'' = None \<and> files w2 ''chunk_2.wav'' = None
    \<and> files w2 ''chunk_3.wav'' = None"
proof -
  have "api_utils_importable service_75" by (simp add: service_75_def)
  moreover have "files recording_75 ''rec.wav'' = Some \<lparr>fsize = 644, wave = Some
         \<lparr>nchannels = 2, sampwidth = 2, framerate = 2, data_chunk = replicate 600 0\<rparr>\<rparr>"
    by (simp add: recording_75_def)
  moreover have "0 < fsize \<lparr>fsize = 644, wave = Some
         \<lparr>nchannels = 2, sampwidth = 2, framerate = 2, data_chunk = replicate 600 0\<rparr>\<rparr>"
    by simp
  moreover note split_audio_75_seconds
  moreover have "[''chunk_1.wav'', ''chunk_2.wav'', ''chunk_3.wav''] \<noteq> []" by simp
  ultimately obtain ts w2 where r:
    "process_long_audio service_75 recording_75 ''rec.wav''
       = Some (rstrip (concat (map (\<lambda>t. t @ [32]) (filter (\<lambda>t. t \<noteq> []) ts))), w2)"
    "length ts = length [''chunk_1.wav'', ''chunk_2.wav'', ''chunk_3.wav'']"
    "\<forall>c\<in>set [''chunk_1.wav'', ''chunk_2.wav'', ''chunk_3.wav'']. files w2 c = None"
    using process_long_audio_chunks by blast
  from r(1) process_long_audio_75_seconds
  have e: "rstrip (concat (map (\<lambda>t. t @ [32]) (filter (\<lambda>t. t \<noteq> []) ts))) = ustr_of ''hello world''"
    and t: "trace w2 = [SplitAudio ''rec.wav'',
            AudioToText ''chunk_1.wav'' (ustr_of ''hello''), CleanupTempFile ''chunk_1.wav'',
            AudioToText ''chunk_2.wav'' [], CleanupTempFile ''chunk_2.wav'',
            AudioToText ''chunk_3.wav'' (ustr_of ''world''), CleanupTempFile ''chunk_3.wav'']"
    by simp_all
  from r(3) have "files w2 ''chunk_1.wav'' = None" "files w2 ''chunk_2.wav'' = None"
    "files w2 ''chunk_3.wav'' = None" by simp_all
  with r(1,2) e t show ?thesis by (intro exI [of _ ts] exI [of _ w2]) simp
qed

end
